theory Spec2Isabelle
  imports Complex_Main "HOL-Library.AList" "HOL-Library.Multiset"
begin

section \<open>JavaScript values as the program sees them\<close>

text \<open>
  The server is TypeScript running on Node. Types are erased at run time, and the value
  that \<^verbatim>\<open>JSON.parse\<close> returns is cast, unchecked, to \<^verbatim>\<open>AnalysisResult\<close>; the
  request body is likewise whatever JSON the client sent. So the model works on untyped
  JavaScript values. A number is a double; \<^verbatim>\<open>Math.min\<close>, \<^verbatim>\<open>Math.max\<close> and comparison
  never round, so a finite double is modelled by the real it denotes (negative zero is
  identified with zero). Where the program makes a number from text, the value is
  rounded to a double as the engine rounds it.
\<close>

datatype jsnum = Fin real | NaN | PosInf | NegInf

text \<open>
  An object is its list of own properties in insertion order. An array carries its
  elements and, separately, the named own properties that an assignment such as
  \<^verbatim>\<open>arr.powerBalance = 0\<close> adds to it.
\<close>

datatype jsval =
    JUndefined
  | JNull
  | JBool bool
  | JNumber jsnum
  | JString string
  | JArray "jsval list" "(string \<times> jsval) list"
  | JObject "(string \<times> jsval) list"

text \<open>The faults the engine raises as a \<^verbatim>\<open>TypeError\<close>.\<close>

datatype engine_fault =
    CannotConvertToPrimitive
  | CannotReadProperty jsval string
  | CannotSetProperty jsval string

subsection \<open>\<^verbatim>\<open>Math.min\<close> and \<^verbatim>\<open>Math.max\<close>\<close>

fun Math_min :: "jsnum \<Rightarrow> jsnum \<Rightarrow> jsnum" where
  "Math_min NaN b = NaN"
| "Math_min a NaN = NaN"
| "Math_min NegInf b = NegInf"
| "Math_min a NegInf = NegInf"
| "Math_min PosInf b = b"
| "Math_min a PosInf = a"
| "Math_min (Fin a) (Fin b) = Fin (min a b)"

fun Math_max :: "jsnum \<Rightarrow> jsnum \<Rightarrow> jsnum" where
  "Math_max NaN b = NaN"
| "Math_max a NaN = NaN"
| "Math_max PosInf b = PosInf"
| "Math_max a PosInf = PosInf"
| "Math_max NegInf b = b"
| "Math_max a NegInf = a"
| "Math_max (Fin a) (Fin b) = Fin (max a b)"

subsection \<open>Truthiness and the \<^verbatim>\<open>||\<close> operator\<close>

fun ToBoolean :: "jsval \<Rightarrow> bool" where
  "ToBoolean JUndefined = False"
| "ToBoolean JNull = False"
| "ToBoolean (JBool b) = b"
| "ToBoolean (JNumber n) = (n \<noteq> Fin 0 \<and> n \<noteq> NaN)"
| "ToBoolean (JString s) = (s \<noteq> [])"
| "ToBoolean (JArray xs ps) = True"
| "ToBoolean (JObject kvs) = True"

definition logical_or :: "jsval \<Rightarrow> jsval \<Rightarrow> jsval" where
  "logical_or a b = (if ToBoolean a then a else b)"

subsection \<open>Strings to numbers\<close>

text \<open>
  A string is the UTF-8 encoding of the JavaScript string. \<^verbatim>\<open>StringToNumber\<close> and
  \<^verbatim>\<open>parseFloat\<close> of ECMAScript: white space is trimmed, then the text must be (for
  \<^verbatim>\<open>parseFloat\<close>: must start with) a decimal literal, and \<^verbatim>\<open>StringToNumber\<close> also reads
  \<^verbatim>\<open>0x\<close>, \<^verbatim>\<open>0o\<close> and \<^verbatim>\<open>0b\<close> integers. Anything else is \<^verbatim>\<open>NaN\<close>. The mathematical
  value of a literal is rounded to the nearest double, ties to even, as the engine does.
\<close>

text \<open>
  The code points of \<^verbatim>\<open>WhiteSpace\<close> and \<^verbatim>\<open>LineTerminator\<close>, in UTF-8: tab, line feed,
  vertical tab, form feed, carriage return, space, U+00A0, U+1680, U+2000 to U+200A,
  U+2028, U+2029, U+202F, U+205F, U+3000 and U+FEFF.
\<close>

definition StrWhiteSpaceChar :: "string list" where
  "StrWhiteSpaceChar =
     [[CHR 0x09], [CHR 0x0A], [CHR 0x0B], [CHR 0x0C], [CHR 0x0D], [CHR 0x20],
      [CHR 0xC2, CHR 0xA0],
      [CHR 0xE1, CHR 0x9A, CHR 0x80],
      [CHR 0xE2, CHR 0x80, CHR 0x80], [CHR 0xE2, CHR 0x80, CHR 0x81],
      [CHR 0xE2, CHR 0x80, CHR 0x82], [CHR 0xE2, CHR 0x80, CHR 0x83],
      [CHR 0xE2, CHR 0x80, CHR 0x84], [CHR 0xE2, CHR 0x80, CHR 0x85],
      [CHR 0xE2, CHR 0x80, CHR 0x86], [CHR 0xE2, CHR 0x80, CHR 0x87],
      [CHR 0xE2, CHR 0x80, CHR 0x88], [CHR 0xE2, CHR 0x80, CHR 0x89],
      [CHR 0xE2, CHR 0x80, CHR 0x8A],
      [CHR 0xE2, CHR 0x80, CHR 0xA8], [CHR 0xE2, CHR 0x80, CHR 0xA9],
      [CHR 0xE2, CHR 0x80, CHR 0xAF],
      [CHR 0xE2, CHR 0x81, CHR 0x9F],
      [CHR 0xE3, CHR 0x80, CHR 0x80],
      [CHR 0xEF, CHR 0xBB, CHR 0xBF]]"

text \<open>Remove from the front every leading occurrence of one of the given sequences.\<close>

function strip_leading :: "string list \<Rightarrow> string \<Rightarrow> string" where
  "strip_leading ws s =
     (case find (\<lambda>w. w \<noteq> [] \<and> take (length w) s = w) ws of
        None \<Rightarrow> s
      | Some w \<Rightarrow> strip_leading ws (drop (length w) s))"
  by pat_completeness auto
termination
proof (relation "measure (\<lambda>(ws, s). length s)")
  show "wf (measure (\<lambda>(ws, s). length s))"
    by simp
next
  fix ws :: "string list" and s w :: string
  assume "find (\<lambda>w. w \<noteq> [] \<and> take (length w) s = w) ws = Some w"
  then have "w \<noteq> []" and "take (length w) s = w"
    by (auto simp: find_Some_iff)
  then have "s \<noteq> []"
    by auto
  with \<open>w \<noteq> []\<close> show "((ws, drop (length w) s), (ws, s)) \<in> measure (\<lambda>(ws, s). length s)"
    by simp
qed

definition TrimStart :: "string \<Rightarrow> string" where
  "TrimStart s = strip_leading StrWhiteSpaceChar s"

definition TrimString :: "string \<Rightarrow> string" where
  "TrimString s = rev (strip_leading (map rev StrWhiteSpaceChar) (rev (TrimStart s)))"

fun digit_of :: "char \<Rightarrow> nat option" where
  "digit_of c =
     (let n = (of_char c :: nat) in
      if 48 \<le> n \<and> n \<le> 57 then Some (n - 48)
      else if 97 \<le> n \<and> n \<le> 102 then Some (n - 87)
      else if 65 \<le> n \<and> n \<le> 70 then Some (n - 55)
      else None)"

definition is_digit :: "nat \<Rightarrow> char \<Rightarrow> bool" where
  "is_digit radix c = (case digit_of c of None \<Rightarrow> False | Some d \<Rightarrow> d < radix)"

definition digits_value :: "nat \<Rightarrow> string \<Rightarrow> int" where
  "digits_value radix ds =
     foldl (\<lambda>a c. int radix * a + (case digit_of c of None \<Rightarrow> 0 | Some d \<Rightarrow> int d)) 0 ds"

definition negate :: "jsnum \<Rightarrow> jsnum" where
  "negate n = (case n of Fin r \<Rightarrow> Fin (- r) | NaN \<Rightarrow> NaN | PosInf \<Rightarrow> NegInf | NegInf \<Rightarrow> PosInf)"

text \<open>
  The double nearest to the fraction \<open>num / den\<close> (\<open>num\<close> not negative, \<open>den\<close>
  positive): 53 significant bits, ties to even, gradual underflow below
  \<open>2\<^sup>-\<^sup>1\<^sup>0\<^sup>2\<^sup>2\<close> and \<^verbatim>\<open>Infinity\<close> from \<open>2\<^sup>1\<^sup>0\<^sup>2\<^sup>4\<close> on. \<open>bit_length n\<close> is the number
  of binary digits of \<open>n\<close>.
\<close>

function bit_length :: "int \<Rightarrow> nat" where
  "bit_length n = (if n \<le> 0 then 0 else Suc (bit_length (n div 2)))"
  by pat_completeness auto
termination
  by (relation "measure nat") auto

definition round_half_even :: "int \<Rightarrow> int \<Rightarrow> int" where
  "round_half_even a b =
     (let n = a div b; r = a mod b in
      if 2 * r < b then n
      else if b < 2 * r then n + 1
      else if even n then n else n + 1)"

definition RoundToDouble :: "int \<Rightarrow> int \<Rightarrow> jsnum" where
  "RoundToDouble num den =
     (if num \<le> 0 then Fin 0
      else
        (let e0 = int (bit_length num) - int (bit_length den);
             e = (if (if 0 \<le> e0 then den * 2 ^ nat e0 \<le> num else den \<le> num * 2 ^ nat (- e0))
                  then e0 else e0 - 1);
             k = max e (- 1022) - 52;
             n = (if 0 \<le> k then round_half_even num (den * 2 ^ nat k)
                  else round_half_even (num * 2 ^ nat (- k)) den)
         in if 0 \<le> k then
              (if 2 ^ 1024 \<le> n * 2 ^ nat k then PosInf else Fin (real_of_int (n * 2 ^ nat k)))
            else Fin (real_of_int n / 2 ^ nat (- k))))"

text \<open>The number value of the digits \<open>m\<close> times ten to the power \<open>e\<close>.\<close>

definition decimal_value :: "int \<Rightarrow> int \<Rightarrow> jsnum" where
  "decimal_value m e =
     (if 0 \<le> e then RoundToDouble (m * 10 ^ nat e) 1 else RoundToDouble m (10 ^ nat (- e)))"

text \<open>\<^verbatim>\<open>ExponentPart\<close>: \<^verbatim>\<open>e\<close> or \<^verbatim>\<open>E\<close>, an optional sign, at least one digit.\<close>

definition ExponentPart :: "string \<Rightarrow> (int \<times> string) option" where
  "ExponentPart s =
     (case s of
        [] \<Rightarrow> None
      | c # r \<Rightarrow>
          if c = CHR ''e'' \<or> c = CHR ''E'' then
            (let (neg, r') =
                   (case r of
                      [] \<Rightarrow> (False, r)
                    | d # r'' \<Rightarrow>
                        if d = CHR ''-'' then (True, r'')
                        else if d = CHR ''+'' then (False, r'')
                        else (False, r));
                 ds = takeWhile (is_digit 10) r'
             in if ds = [] then None
                else Some ((if neg then - digits_value 10 ds else digits_value 10 ds),
                           dropWhile (is_digit 10) r'))
          else None)"

text \<open>
  The longest prefix that is a \<^verbatim>\<open>StrUnsignedDecimalLiteral\<close>, with its value and the
  text left over. \<open>with_exponent m f s\<close> finishes a literal whose digits are \<open>m\<close>, the
  last \<open>f\<close> of them after the point, and whose exponent part, if any, starts \<open>s\<close>.
\<close>

definition with_exponent :: "int \<Rightarrow> nat \<Rightarrow> string \<Rightarrow> (jsnum \<times> string) option" where
  "with_exponent m f s =
     (case ExponentPart s of
        Some (e, r) \<Rightarrow> Some (decimal_value m (e - int f), r)
      | None \<Rightarrow> Some (decimal_value m (- int f), s))"

definition StrUnsignedDecimalLiteral :: "string \<Rightarrow> (jsnum \<times> string) option" where
  "StrUnsignedDecimalLiteral s =
     (if take 8 s = ''Infinity'' then Some (PosInf, drop 8 s)
      else
        (let ip = takeWhile (is_digit 10) s; r1 = dropWhile (is_digit 10) s in
         case r1 of
           [] \<Rightarrow> (if ip = [] then None else Some (decimal_value (digits_value 10 ip) 0, []))
         | c # r2 \<Rightarrow>
             if c = CHR ''.'' then
               (let fp = takeWhile (is_digit 10) r2; r3 = dropWhile (is_digit 10) r2 in
                if ip = [] \<and> fp = [] then None
                else with_exponent (digits_value 10 (ip @ fp)) (length fp) r3)
             else if ip = [] then None
             else with_exponent (digits_value 10 ip) 0 r1))"

definition StrDecimalLiteral :: "string \<Rightarrow> (jsnum \<times> string) option" where
  "StrDecimalLiteral s =
     (case s of
        [] \<Rightarrow> None
      | c # r \<Rightarrow>
          if c = CHR ''+'' then StrUnsignedDecimalLiteral r
          else if c = CHR ''-'' then
            map_option (\<lambda>(v, rest). (negate v, rest)) (StrUnsignedDecimalLiteral r)
          else StrUnsignedDecimalLiteral s)"

definition NonDecimalIntegerLiteral :: "string \<Rightarrow> int option" where
  "NonDecimalIntegerLiteral s =
     (case s of
        z # x # ds \<Rightarrow>
          (let radix =
                 (if x = CHR ''x'' \<or> x = CHR ''X'' then 16
                  else if x = CHR ''o'' \<or> x = CHR ''O'' then 8
                  else if x = CHR ''b'' \<or> x = CHR ''B'' then 2
                  else (0::nat))
           in if z = CHR ''0'' \<and> radix \<noteq> 0 \<and> ds \<noteq> [] \<and> list_all (is_digit radix) ds
              then Some (digits_value radix ds) else None)
      | _ \<Rightarrow> None)"

definition StringToNumber :: "string \<Rightarrow> jsnum" where
  "StringToNumber s =
     (let t = TrimString s in
      if t = [] then Fin 0
      else case NonDecimalIntegerLiteral t of
             Some n \<Rightarrow> RoundToDouble n 1
           | None \<Rightarrow>
               (case StrDecimalLiteral t of
                  Some (v, rest) \<Rightarrow> if rest = [] then v else NaN
                | None \<Rightarrow> NaN))"

definition parseFloat :: "string \<Rightarrow> jsnum" where
  "parseFloat s =
     (case StrDecimalLiteral (TrimStart s) of
        Some (v, rest) \<Rightarrow> v
      | None \<Rightarrow> NaN)"

subsection \<open>Values to strings and to numbers\<close>

text \<open>
  \<^verbatim>\<open>ToString\<close> and \<^verbatim>\<open>ToNumber\<close> of ECMAScript on the values JSON can hold. The decimal
  text of a number (\<^verbatim>\<open>Number.prototype.toString\<close>) is the engine's; it is the parameter
  \<open>nts\<close>. An array converts through \<^verbatim>\<open>join\<close>, a plain object to
  \<^verbatim>\<open>[object Object]\<close>; an own property named \<^verbatim>\<open>toString\<close> holds JSON data, which is not
  callable, and then the conversion throws.
\<close>

fun join :: "string \<Rightarrow> string list \<Rightarrow> string" where
  "join sep [] = []"
| "join sep [x] = x"
| "join sep (x # y # ys) = x @ sep @ join sep (y # ys)"

fun ToString :: "(jsnum \<Rightarrow> string) \<Rightarrow> jsval \<Rightarrow> engine_fault + string"
  and element_strings :: "(jsnum \<Rightarrow> string) \<Rightarrow> jsval list \<Rightarrow> engine_fault + string list"
where
  "ToString nts JUndefined = Inr ''undefined''"
| "ToString nts JNull = Inr ''null''"
| "ToString nts (JBool b) = Inr (if b then ''true'' else ''false'')"
| "ToString nts (JNumber n) = Inr (nts n)"
| "ToString nts (JString s) = Inr s"
| "ToString nts (JArray xs ps) =
     (if ''toString'' \<in> fst ` set ps then Inl CannotConvertToPrimitive
      else if ''join'' \<in> fst ` set ps then Inr ''[object Array]''
      else (case element_strings nts xs of
              Inl f \<Rightarrow> Inl f
            | Inr strs \<Rightarrow> Inr (join '','' strs)))"
| "ToString nts (JObject kvs) =
     (if ''toString'' \<in> fst ` set kvs then Inl CannotConvertToPrimitive
      else Inr ''[object Object]'')"
| "element_strings nts [] = Inr []"
| "element_strings nts (x # xs) =
     (case (if x = JUndefined \<or> x = JNull then Inr [] else ToString nts x) of
        Inl f \<Rightarrow> Inl f
      | Inr s \<Rightarrow> (case element_strings nts xs of
                    Inl f \<Rightarrow> Inl f
                  | Inr strs \<Rightarrow> Inr (s # strs)))"

definition ToNumber :: "(jsnum \<Rightarrow> string) \<Rightarrow> jsval \<Rightarrow> engine_fault + jsnum" where
  "ToNumber nts v =
     (case v of
        JUndefined \<Rightarrow> Inr NaN
      | JNull \<Rightarrow> Inr (Fin 0)
      | JBool b \<Rightarrow> Inr (Fin (if b then 1 else 0))
      | JNumber n \<Rightarrow> Inr n
      | JString s \<Rightarrow> Inr (StringToNumber s)
      | _ \<Rightarrow> (case ToString nts v of
                 Inl f \<Rightarrow> Inl f
               | Inr s \<Rightarrow> Inr (StringToNumber s)))"

subsection \<open>Reading and writing a property\<close>

text \<open>
  \<open>Get_prop v key\<close> is \<^verbatim>\<open>v[key]\<close> and \<open>Set_prop v key x\<close> is \<^verbatim>\<open>v[key] = x\<close> in strict
  mode (an ES module), for a \<open>key\<close> that is neither an array index, \<^verbatim>\<open>length\<close>, nor a
  name found on a prototype; every name the program reads or writes is of that kind.
  Reading from \<^verbatim>\<open>null\<close> throws, reading from another primitive finds nothing, and
  writing to any primitive throws.
\<close>

definition own_property :: "(string \<times> jsval) list \<Rightarrow> string \<Rightarrow> jsval" where
  "own_property ps key = (case map_of ps key of None \<Rightarrow> JUndefined | Some x \<Rightarrow> x)"

fun Get_prop :: "jsval \<Rightarrow> string \<Rightarrow> engine_fault + jsval" where
  "Get_prop (JObject kvs) key = Inr (own_property kvs key)"
| "Get_prop (JArray xs ps) key = Inr (own_property ps key)"
| "Get_prop JUndefined key = Inl (CannotReadProperty JUndefined key)"
| "Get_prop JNull key = Inl (CannotReadProperty JNull key)"
| "Get_prop v key = Inr JUndefined"

fun Set_prop :: "jsval \<Rightarrow> string \<Rightarrow> jsval \<Rightarrow> engine_fault + jsval" where
  "Set_prop (JObject kvs) key x = Inr (JObject (AList.update key x kvs))"
| "Set_prop (JArray xs ps) key x = Inr (JArray xs (AList.update key x ps))"
| "Set_prop v key x = Inl (CannotSetProperty v key)"

subsection \<open>\<^verbatim>\<open>JSON.stringify\<close>\<close>

text \<open>
  On the values JSON can hold, with no replacer and no indentation. \<^verbatim>\<open>undefined\<close> has
  no text (the call returns \<^verbatim>\<open>undefined\<close>); inside an array it is written \<^verbatim>\<open>null\<close>,
  inside an object its property is left out. The named properties of an array are not
  written.
\<close>

definition hex_digit :: "nat \<Rightarrow> char" where
  "hex_digit n = ''0123456789abcdef'' ! (n mod 16)"

definition QuoteJSONChar :: "char \<Rightarrow> string" where
  "QuoteJSONChar c =
     (if c = CHR 0x22 then [CHR 0x5C, CHR 0x22]
      else if c = CHR 0x5C then [CHR 0x5C, CHR 0x5C]
      else if c = CHR 0x08 then [CHR 0x5C, CHR ''b'']
      else if c = CHR 0x09 then [CHR 0x5C, CHR ''t'']
      else if c = CHR 0x0A then [CHR 0x5C, CHR ''n'']
      else if c = CHR 0x0C then [CHR 0x5C, CHR ''f'']
      else if c = CHR 0x0D then [CHR 0x5C, CHR ''r'']
      else if (of_char c :: nat) < 32
        then [CHR 0x5C, CHR ''u'', CHR ''0'', CHR ''0'',
              hex_digit (of_char c div 16), hex_digit (of_char c)]
      else [c])"

definition QuoteJSONString :: "string \<Rightarrow> string" where
  "QuoteJSONString s = [CHR 0x22] @ concat (map QuoteJSONChar s) @ [CHR 0x22]"

fun JSON_stringify :: "(jsnum \<Rightarrow> string) \<Rightarrow> jsval \<Rightarrow> string option"
  and stringify_elements :: "(jsnum \<Rightarrow> string) \<Rightarrow> jsval list \<Rightarrow> string list"
  and stringify_properties :: "(jsnum \<Rightarrow> string) \<Rightarrow> (string \<times> jsval) list \<Rightarrow> string list"
where
  "JSON_stringify nts JUndefined = None"
| "JSON_stringify nts JNull = Some ''null''"
| "JSON_stringify nts (JBool b) = Some (if b then ''true'' else ''false'')"
| "JSON_stringify nts (JNumber n) = Some (case n of Fin r \<Rightarrow> nts n | _ \<Rightarrow> ''null'')"
| "JSON_stringify nts (JString s) = Some (QuoteJSONString s)"
| "JSON_stringify nts (JArray xs ps) = Some (''['' @ join '','' (stringify_elements nts xs) @ '']'')"
| "JSON_stringify nts (JObject kvs) = Some (''{'' @ join '','' (stringify_properties nts kvs) @ ''}'')"
| "stringify_elements nts [] = []"
| "stringify_elements nts (x # xs) =
     (case JSON_stringify nts x of None \<Rightarrow> ''null'' | Some t \<Rightarrow> t) # stringify_elements nts xs"
| "stringify_properties nts [] = []"
| "stringify_properties nts ((k, x) # kvs) =
     (case JSON_stringify nts x of
        None \<Rightarrow> stringify_properties nts kvs
      | Some t \<Rightarrow> (QuoteJSONString k @ '':'' @ t) # stringify_properties nts kvs)"

section \<open>The Analysis Requestor (\<^verbatim>\<open>server/services/openai.ts\<close>)\<close>

text \<open>
  The request as the handler builds it. The TypeScript interface declares every field
  present, but the handler fills them from a stored conversation whose optional fields
  may be absent (\<^verbatim>\<open>undefined\<close>), so they are options here.
\<close>

record ConversationAnalysisRequest =
  rq_conversation :: string
  rq_analysisType :: "string option"
  rq_model :: "string option"
  rq_temperature :: jsnum
  rq_maxTokens :: "int option"

text \<open>
  What lies outside the repository. \<open>chat_completions_create\<close> is the remote call made
  for a request (the two prompts, the model, the temperature and the token budget are
  functions of the request) followed by \<^verbatim>\<open>response.choices[0].message.content\<close>: either
  something was thrown (\<open>Inl\<close> its message) or the content came back, a string or
  \<^verbatim>\<open>null\<close>. \<open>JSON_parse\<close> is \<^verbatim>\<open>JSON.parse\<close>, \<open>Inl\<close> the message of its
  \<^verbatim>\<open>SyntaxError\<close>. \<open>Number_toString\<close> writes a number as decimal text and
  \<open>TypeError_message\<close> is the engine's wording of a fault.
\<close>

record runtime =
  chat_completions_create :: "ConversationAnalysisRequest \<Rightarrow> string + string option"
  JSON_parse :: "string \<Rightarrow> string + jsval"
  Number_toString :: "jsnum \<Rightarrow> string"
  TypeError_message :: "engine_fault \<Rightarrow> string"

text \<open>
  One line of the sanitising block:
  \<^verbatim>\<open>analysisResult.k = Math.max(0, Math.min(10, analysisResult.k || 0))\<close>.
\<close>

definition sanitize_score :: "runtime \<Rightarrow> string \<Rightarrow> jsval \<Rightarrow> engine_fault + jsval" where
  "sanitize_score rt key analysisResult =
     (case Get_prop analysisResult key of
        Inl f \<Rightarrow> Inl f
      | Inr raw \<Rightarrow>
          (case ToNumber (Number_toString rt) (logical_or raw (JNumber (Fin 0))) of
             Inl f \<Rightarrow> Inl f
           | Inr n \<Rightarrow>
               Set_prop analysisResult key
                 (JNumber (Math_max (Fin 0) (Math_min (Fin 10) n)))))"

fun sanitize_all :: "runtime \<Rightarrow> string list \<Rightarrow> jsval \<Rightarrow> engine_fault + jsval" where
  "sanitize_all rt [] analysisResult = Inr analysisResult"
| "sanitize_all rt (key # keys) analysisResult =
     (case sanitize_score rt key analysisResult of
        Inl f \<Rightarrow> Inl f
      | Inr r \<Rightarrow> sanitize_all rt keys r)"

definition score_fields :: "string list" where
  "score_fields =
     [''emotionalIntensity'', ''resolutionPotential'', ''communicationQuality'', ''powerBalance'']"

definition sanitize_scores :: "runtime \<Rightarrow> jsval \<Rightarrow> engine_fault + jsval" where
  "sanitize_scores rt analysisResult = sanitize_all rt score_fields analysisResult"

text \<open>The body of the \<^verbatim>\<open>try\<close> block: \<open>Inl\<close> is the message of whatever was thrown.\<close>

definition analyze_try :: "runtime \<Rightarrow> ConversationAnalysisRequest \<Rightarrow> string + jsval" where
  "analyze_try rt request =
     (case chat_completions_create rt request of
        Inl m \<Rightarrow> Inl m
      | Inr content \<Rightarrow>
          (case content of
             None \<Rightarrow> Inl ''No response content received from OpenAI''
           | Some text \<Rightarrow>
               if text = [] then Inl ''No response content received from OpenAI''
               else
                 (case JSON_parse rt text of
                    Inl m \<Rightarrow> Inl m
                  | Inr parsed \<Rightarrow>
                      (case sanitize_scores rt parsed of
                         Inl f \<Rightarrow> Inl (TypeError_message rt f)
                       | Inr analysisResult \<Rightarrow> Inr analysisResult))))"

text \<open>The \<^verbatim>\<open>catch\<close> wraps the message and throws again; nothing is retried.\<close>

definition analyzeConversation :: "runtime \<Rightarrow> ConversationAnalysisRequest \<Rightarrow> string + jsval" where
  "analyzeConversation rt request =
     (case analyze_try rt request of
        Inl m \<Rightarrow> Inl (''Failed to analyze conversation: '' @ m)
      | Inr analysisResult \<Rightarrow> Inr analysisResult)"

text \<open>A score as the specification wants it: a number from 0 to 10.\<close>

definition score_in_range :: "jsval \<Rightarrow> bool" where
  "score_in_range v = (case v of JNumber (Fin r) \<Rightarrow> 0 \<le> r \<and> r \<le> 10 | _ \<Rightarrow> False)"

text \<open>The values that hold properties: an object or an array.\<close>

definition is_container :: "jsval \<Rightarrow> bool" where
  "is_container v = (case v of JObject kvs \<Rightarrow> True | JArray xs ps \<Rightarrow> True | _ \<Rightarrow> False)"

section \<open>The schema (\<^verbatim>\<open>shared/schema.ts\<close>)\<close>

text \<open>
  \<^verbatim>\<open>insertConversationSchema\<close> is \<^verbatim>\<open>createInsertSchema(conversations)\<close> without \<^verbatim>\<open>id\<close>
  and \<^verbatim>\<open>createdAt\<close>. The drizzle-zod library derives one validator from each column of
  the table declared in the source: \<^verbatim>\<open>content\<close> (text, not null, no default) is a required
  string; \<^verbatim>\<open>analysisType\<close>, \<^verbatim>\<open>model\<close> and \<^verbatim>\<open>temperature\<close> (text, not null, with a
  default) are optional strings; \<^verbatim>\<open>title\<close> (text, nullable) is an optional string or
  \<^verbatim>\<open>null\<close>; \<^verbatim>\<open>maxTokens\<close> (integer, not null, with a default) is an optional integer in
  the 32-bit range. The column defaults belong to the database: the validator neither
  checks against them nor fills them in. Unknown keys are dropped.
\<close>

record InsertConversation =
  title :: "string option option"
  content :: string
  analysisType :: "string option"
  model :: "string option"
  temperature :: "string option"
  maxTokens :: "int option"

text \<open>
  In \<open>title\<close>, \<open>None\<close> is an absent key and \<open>Some None\<close> is \<^verbatim>\<open>null\<close>; in the other
  optional fields \<open>None\<close> is an absent key. A stored conversation is the validated data
  with \<^verbatim>\<open>id\<close> and \<^verbatim>\<open>createdAt\<close> added; the time is \<^verbatim>\<open>getTime()\<close>, in milliseconds.
\<close>

record Conversation = InsertConversation +
  id_c :: string
  createdAt_c :: int

record InsertAnalysis =
  conversationId :: string
  emotionalTone :: jsval
  powerDynamics :: jsval
  communicationPatterns :: jsval
  relationshipInsights :: jsval
  recommendations :: jsval
  emotionalIntensity :: string
  resolutionPotential :: string
  communicationQuality :: string
  powerBalance :: string
  rawAnalysis :: jsval

record Analysis = InsertAnalysis +
  id_a :: string
  createdAt_a :: int

datatype ZodIssue =
    Required string
  | InvalidType string
  | TooSmall string
  | TooBig string
  | NotInteger string

definition zod_string :: "string \<Rightarrow> jsval \<Rightarrow> ZodIssue list" where
  "zod_string path v =
     (case v of JString s \<Rightarrow> [] | JUndefined \<Rightarrow> [Required path] | _ \<Rightarrow> [InvalidType path])"

definition zod_string_optional :: "string \<Rightarrow> jsval \<Rightarrow> ZodIssue list" where
  "zod_string_optional path v =
     (case v of JString s \<Rightarrow> [] | JUndefined \<Rightarrow> [] | _ \<Rightarrow> [InvalidType path])"

definition zod_string_nullish :: "string \<Rightarrow> jsval \<Rightarrow> ZodIssue list" where
  "zod_string_nullish path v =
     (case v of JString s \<Rightarrow> [] | JUndefined \<Rightarrow> [] | JNull \<Rightarrow> [] | _ \<Rightarrow> [InvalidType path])"

definition zod_int32_optional :: "string \<Rightarrow> jsval \<Rightarrow> ZodIssue list" where
  "zod_int32_optional path v =
     (case v of
        JUndefined \<Rightarrow> []
      | JNumber n \<Rightarrow>
          (case n of
             Fin r \<Rightarrow>
               (if r < - 2147483648 then [TooSmall path] else [])
               @ (if 2147483647 < r then [TooBig path] else [])
               @ (if real_of_int \<lfloor>r\<rfloor> = r then [] else [NotInteger path])
           | NaN \<Rightarrow> [InvalidType path]
           | PosInf \<Rightarrow> [TooBig path, NotInteger path]
           | NegInf \<Rightarrow> [TooSmall path, NotInteger path])
      | _ \<Rightarrow> [InvalidType path])"

definition conversation_issues :: "(string \<times> jsval) list \<Rightarrow> ZodIssue list" where
  "conversation_issues kvs =
     zod_string_nullish ''title'' (own_property kvs ''title'')
     @ zod_string ''content'' (own_property kvs ''content'')
     @ zod_string_optional ''analysisType'' (own_property kvs ''analysisType'')
     @ zod_string_optional ''model'' (own_property kvs ''model'')
     @ zod_string_optional ''temperature'' (own_property kvs ''temperature'')
     @ zod_int32_optional ''maxTokens'' (own_property kvs ''maxTokens'')"

definition string_field :: "jsval \<Rightarrow> string option" where
  "string_field v = (case v of JString s \<Rightarrow> Some s | _ \<Rightarrow> None)"

definition conversation_data :: "(string \<times> jsval) list \<Rightarrow> InsertConversation" where
  "conversation_data kvs =
     \<lparr> title = (case own_property kvs ''title'' of
                  JString s \<Rightarrow> Some (Some s) | JNull \<Rightarrow> Some None | _ \<Rightarrow> None),
       content = (case own_property kvs ''content'' of JString s \<Rightarrow> s | _ \<Rightarrow> []),
       analysisType = string_field (own_property kvs ''analysisType''),
       model = string_field (own_property kvs ''model''),
       temperature = string_field (own_property kvs ''temperature''),
       maxTokens = (case own_property kvs ''maxTokens'' of
                      JNumber (Fin r) \<Rightarrow> Some \<lfloor>r\<rfloor> | _ \<Rightarrow> None) \<rparr>"

text \<open>\<^verbatim>\<open>insertConversationSchema.parse\<close>: \<open>Inl\<close> the issues of the \<^verbatim>\<open>ZodError\<close> it throws.\<close>

definition insertConversationSchema_parse :: "jsval \<Rightarrow> ZodIssue list + InsertConversation" where
  "insertConversationSchema_parse data =
     (case data of
        JObject kvs \<Rightarrow>
          if conversation_issues kvs = [] then Inr (conversation_data kvs)
          else Inl (conversation_issues kvs)
      | JUndefined \<Rightarrow> Inl [Required []]
      | _ \<Rightarrow> Inl [InvalidType []])"

section \<open>The record store (\<^verbatim>\<open>server/storage.ts\<close>)\<close>

text \<open>
  \<^verbatim>\<open>Array.prototype.sort\<close> with a comparator: the sort is stable, \<open>a\<close> goes before \<open>b\<close>
  when \<open>cmp a b < 0\<close>, and elements that compare equal keep their order.
\<close>

fun insert_sorted :: "('a \<Rightarrow> 'a \<Rightarrow> int) \<Rightarrow> 'a \<Rightarrow> 'a list \<Rightarrow> 'a list" where
  "insert_sorted cmp x [] = [x]"
| "insert_sorted cmp x (y # ys) =
     (if cmp x y \<le> 0 then x # y # ys else y # insert_sorted cmp x ys)"

definition Array_sort :: "('a \<Rightarrow> 'a \<Rightarrow> int) \<Rightarrow> 'a list \<Rightarrow> 'a list" where
  "Array_sort cmp xs = foldr (insert_sorted cmp) xs []"

text \<open>
  What a call draws from outside the program: the value of \<^verbatim>\<open>randomUUID()\<close> and the time
  of \<^verbatim>\<open>new Date()\<close>.
\<close>

record entropy =
  randomUUID :: string
  new_Date :: int

text \<open>
  The interface \<^verbatim>\<open>IStorage\<close>, over any state. Every method is asynchronous and may
  reject: \<open>Inl\<close> is the message of the rejection. (The three methods on users, which no
  route calls, are left out.)
\<close>

record 's IStorage =
  createConversation :: "entropy \<Rightarrow> InsertConversation \<Rightarrow> 's \<Rightarrow> (string + Conversation) \<times> 's"
  getConversation :: "string \<Rightarrow> 's \<Rightarrow> (string + Conversation option) \<times> 's"
  getConversations :: "'s \<Rightarrow> (string + Conversation list) \<times> 's"
  createAnalysis :: "entropy \<Rightarrow> InsertAnalysis \<Rightarrow> 's \<Rightarrow> (string + Analysis) \<times> 's"
  getAnalysis :: "string \<Rightarrow> 's \<Rightarrow> (string + Analysis option) \<times> 's"
  getAnalyses :: "'s \<Rightarrow> (string + Analysis list) \<times> 's"

text \<open>
  \<^verbatim>\<open>MemStorage\<close>: two \<^verbatim>\<open>Map\<close>s, each a list of entries in insertion order. \<^verbatim>\<open>Map.set\<close>
  replaces the value of a key that is present, in place, and appends a new key;
  \<^verbatim>\<open>Map.get\<close> looks the key up; \<^verbatim>\<open>values()\<close> lists the values in insertion order.
  A new record is the spread of the data it is made from, then \<^verbatim>\<open>id\<close> and
  \<^verbatim>\<open>createdAt\<close>.
\<close>

record MemStorage =
  conversations :: "(string \<times> Conversation) list"
  analyses :: "(string \<times> Analysis) list"

definition new_conversation :: "entropy \<Rightarrow> InsertConversation \<Rightarrow> Conversation" where
  "new_conversation e insertConversation =
     \<lparr> title = title insertConversation,
       content = content insertConversation,
       analysisType = analysisType insertConversation,
       model = model insertConversation,
       temperature = temperature insertConversation,
       maxTokens = maxTokens insertConversation,
       id_c = randomUUID e,
       createdAt_c = new_Date e \<rparr>"

definition Mem_createConversation ::
  "entropy \<Rightarrow> InsertConversation \<Rightarrow> MemStorage \<Rightarrow> (string + Conversation) \<times> MemStorage" where
  "Mem_createConversation e insertConversation this =
     (let conversation = new_conversation e insertConversation
      in (Inr conversation,
          this\<lparr>conversations := AList.update (randomUUID e) conversation (conversations this)\<rparr>))"

definition Mem_getConversation ::
  "string \<Rightarrow> MemStorage \<Rightarrow> (string + Conversation option) \<times> MemStorage" where
  "Mem_getConversation ident this = (Inr (map_of (conversations this) ident), this)"

definition Mem_getConversations ::
  "MemStorage \<Rightarrow> (string + Conversation list) \<times> MemStorage" where
  "Mem_getConversations this =
     (Inr (Array_sort (\<lambda>a b. createdAt_c b - createdAt_c a) (map snd (conversations this))),
      this)"

definition new_analysis :: "entropy \<Rightarrow> InsertAnalysis \<Rightarrow> Analysis" where
  "new_analysis e insertAnalysis =
     \<lparr> conversationId = conversationId insertAnalysis,
       emotionalTone = emotionalTone insertAnalysis,
       powerDynamics = powerDynamics insertAnalysis,
       communicationPatterns = communicationPatterns insertAnalysis,
       relationshipInsights = relationshipInsights insertAnalysis,
       recommendations = recommendations insertAnalysis,
       emotionalIntensity = emotionalIntensity insertAnalysis,
       resolutionPotential = resolutionPotential insertAnalysis,
       communicationQuality = communicationQuality insertAnalysis,
       powerBalance = powerBalance insertAnalysis,
       rawAnalysis = rawAnalysis insertAnalysis,
       id_a = randomUUID e,
       createdAt_a = new_Date e \<rparr>"

definition Mem_createAnalysis ::
  "entropy \<Rightarrow> InsertAnalysis \<Rightarrow> MemStorage \<Rightarrow> (string + Analysis) \<times> MemStorage" where
  "Mem_createAnalysis e insertAnalysis this =
     (let analysis = new_analysis e insertAnalysis
      in (Inr analysis,
          this\<lparr>analyses := AList.update (randomUUID e) analysis (analyses this)\<rparr>))"

definition Mem_getAnalysis ::
  "string \<Rightarrow> MemStorage \<Rightarrow> (string + Analysis option) \<times> MemStorage" where
  "Mem_getAnalysis cid this =
     (Inr (find (\<lambda>analysis. conversationId analysis = cid) (map snd (analyses this))), this)"

definition Mem_getAnalyses :: "MemStorage \<Rightarrow> (string + Analysis list) \<times> MemStorage" where
  "Mem_getAnalyses this =
     (Inr (Array_sort (\<lambda>a b. createdAt_a b - createdAt_a a) (map snd (analyses this))), this)"

definition storage :: "MemStorage IStorage" where
  "storage =
     \<lparr> createConversation = Mem_createConversation,
       getConversation = Mem_getConversation,
       getConversations = Mem_getConversations,
       createAnalysis = Mem_createAnalysis,
       getAnalysis = Mem_getAnalysis,
       getAnalyses = Mem_getAnalyses \<rparr>"

section \<open>The request handlers (\<^verbatim>\<open>server/routes.ts\<close>)\<close>

text \<open>
  A handler answers with a status and a JSON body. The \<^verbatim>\<open>message\<close> of a caught error is
  text, except that the message of a \<^verbatim>\<open>ZodError\<close>, which is a rendering of its issues, is
  kept as the list of issues.
\<close>

datatype message = Text string | ZodIssues "ZodIssue list"

datatype body =
    MessageBody message
  | ConversationBody Conversation
  | ConversationsBody "Conversation list"
  | AnalysisBody Analysis
  | AnalyzeBody Analysis jsval
  | AnalysesBody "(Analysis \<times> Conversation option) list"

record response =
  status :: nat
  body :: body

text \<open>\<^verbatim>\<open>POST /api/conversations\<close>\<close>

definition post_api_conversations ::
  "'s IStorage \<Rightarrow> entropy \<Rightarrow> jsval \<Rightarrow> 's \<Rightarrow> response \<times> 's" where
  "post_api_conversations store e req_body st =
     (case insertConversationSchema_parse req_body of
        Inl issues \<Rightarrow> (\<lparr>status = 400, body = MessageBody (ZodIssues issues)\<rparr>, st)
      | Inr validatedData \<Rightarrow>
          (case createConversation store e validatedData st of
             (Inl m, st') \<Rightarrow> (\<lparr>status = 400, body = MessageBody (Text m)\<rparr>, st')
           | (Inr conversation, st') \<Rightarrow>
               (\<lparr>status = 200, body = ConversationBody conversation\<rparr>, st')))"

text \<open>\<^verbatim>\<open>GET /api/conversations\<close>\<close>

definition get_api_conversations :: "'s IStorage \<Rightarrow> 's \<Rightarrow> response \<times> 's" where
  "get_api_conversations store st =
     (case getConversations store st of
        (Inl m, st') \<Rightarrow> (\<lparr>status = 500, body = MessageBody (Text m)\<rparr>, st')
      | (Inr cs, st') \<Rightarrow> (\<lparr>status = 200, body = ConversationsBody cs\<rparr>, st'))"

text \<open>\<^verbatim>\<open>GET /api/conversations/:id\<close>\<close>

definition get_api_conversation :: "'s IStorage \<Rightarrow> string \<Rightarrow> 's \<Rightarrow> response \<times> 's" where
  "get_api_conversation store ident st =
     (case getConversation store ident st of
        (Inl m, st') \<Rightarrow> (\<lparr>status = 500, body = MessageBody (Text m)\<rparr>, st')
      | (Inr None, st') \<Rightarrow>
          (\<lparr>status = 404, body = MessageBody (Text ''Conversation not found'')\<rparr>, st')
      | (Inr (Some conversation), st') \<Rightarrow>
          (\<lparr>status = 200, body = ConversationBody conversation\<rparr>, st'))"

text \<open>
  \<^verbatim>\<open>POST /api/conversations/:id/analyze\<close>. The request for the Analysis Requestor is
  built from the stored conversation; \<^verbatim>\<open>parseFloat\<close> of an absent temperature reads the
  text \<^verbatim>\<open>undefined\<close>.
\<close>

definition analysisRequest_of :: "Conversation \<Rightarrow> ConversationAnalysisRequest" where
  "analysisRequest_of conversation =
     \<lparr> rq_conversation = content conversation,
       rq_analysisType = analysisType conversation,
       rq_model = model conversation,
       rq_temperature =
         parseFloat (case temperature conversation of None \<Rightarrow> ''undefined'' | Some t \<Rightarrow> t),
       rq_maxTokens = maxTokens conversation \<rparr>"

text \<open>
  \<^verbatim>\<open>analysisResult.k.toString()\<close>: the text of the score. (After \<open>analyzeConversation\<close>
  the score is a number; the other cases are here for totality.)
\<close>

definition score_text :: "runtime \<Rightarrow> jsval \<Rightarrow> string \<Rightarrow> engine_fault + string" where
  "score_text rt analysisResult key =
     (case Get_prop analysisResult key of
        Inl f \<Rightarrow> Inl f
      | Inr v \<Rightarrow>
          (case v of
             JUndefined \<Rightarrow> Inl (CannotReadProperty v ''toString'')
           | JNull \<Rightarrow> Inl (CannotReadProperty v ''toString'')
           | _ \<Rightarrow> ToString (Number_toString rt) v))"

definition property_or_undefined :: "jsval \<Rightarrow> string \<Rightarrow> jsval" where
  "property_or_undefined v key = (case Get_prop v key of Inl f \<Rightarrow> JUndefined | Inr x \<Rightarrow> x)"

text \<open>
  The argument of \<^verbatim>\<open>storage.createAnalysis\<close>. \<^verbatim>\<open>JSON.stringify\<close> gives text, or
  \<^verbatim>\<open>undefined\<close> when there are no recommendations.
\<close>

definition insertAnalysis_of ::
  "runtime \<Rightarrow> Conversation \<Rightarrow> jsval \<Rightarrow> engine_fault + InsertAnalysis" where
  "insertAnalysis_of rt conversation analysisResult =
     (case Get_prop analysisResult ''emotionalTone'' of
        Inl f \<Rightarrow> Inl f
      | Inr tone \<Rightarrow>
     (case score_text rt analysisResult ''emotionalIntensity'' of
        Inl f \<Rightarrow> Inl f
      | Inr ei \<Rightarrow>
     (case score_text rt analysisResult ''resolutionPotential'' of
        Inl f \<Rightarrow> Inl f
      | Inr rp \<Rightarrow>
     (case score_text rt analysisResult ''communicationQuality'' of
        Inl f \<Rightarrow> Inl f
      | Inr cq \<Rightarrow>
     (case score_text rt analysisResult ''powerBalance'' of
        Inl f \<Rightarrow> Inl f
      | Inr pb \<Rightarrow>
          Inr \<lparr> conversationId = id_c conversation,
                emotionalTone = tone,
                powerDynamics = property_or_undefined analysisResult ''powerDynamics'',
                communicationPatterns =
                  property_or_undefined analysisResult ''communicationPatterns'',
                relationshipInsights =
                  property_or_undefined analysisResult ''relationshipInsights'',
                recommendations =
                  (case JSON_stringify (Number_toString rt)
                          (property_or_undefined analysisResult ''recommendations'') of
                     None \<Rightarrow> JUndefined
                   | Some t \<Rightarrow> JString t),
                emotionalIntensity = ei,
                resolutionPotential = rp,
                communicationQuality = cq,
                powerBalance = pb,
                rawAnalysis = property_or_undefined analysisResult ''rawAnalysis'' \<rparr>)))))"

text \<open>
  The handler returns its answer, the store, and the requests it sent to the Analysis
  Requestor, in order. The request body is a parameter the handler never reads.
\<close>

definition post_api_conversation_analyze ::
  "runtime \<Rightarrow> 's IStorage \<Rightarrow> entropy \<Rightarrow> string \<Rightarrow> jsval
     \<Rightarrow> 's \<Rightarrow> response \<times> 's \<times> ConversationAnalysisRequest list" where
  "post_api_conversation_analyze rt store e ident req_body st =
     (case getConversation store ident st of
        (Inl m, st1) \<Rightarrow> (\<lparr>status = 500, body = MessageBody (Text m)\<rparr>, st1, [])
      | (Inr None, st1) \<Rightarrow>
          (\<lparr>status = 404, body = MessageBody (Text ''Conversation not found'')\<rparr>, st1, [])
      | (Inr (Some conversation), st1) \<Rightarrow>
          (let analysisRequest = analysisRequest_of conversation in
           case analyzeConversation rt analysisRequest of
             Inl m \<Rightarrow> (\<lparr>status = 500, body = MessageBody (Text m)\<rparr>, st1, [analysisRequest])
           | Inr analysisResult \<Rightarrow>
               (case insertAnalysis_of rt conversation analysisResult of
                  Inl f \<Rightarrow>
                    (\<lparr>status = 500, body = MessageBody (Text (TypeError_message rt f))\<rparr>,
                     st1, [analysisRequest])
                | Inr insertAnalysis \<Rightarrow>
                    (case createAnalysis store e insertAnalysis st1 of
                       (Inl m, st2) \<Rightarrow>
                         (\<lparr>status = 500, body = MessageBody (Text m)\<rparr>, st2, [analysisRequest])
                     | (Inr analysis, st2) \<Rightarrow>
                         (\<lparr>status = 200, body = AnalyzeBody analysis analysisResult\<rparr>,
                          st2, [analysisRequest])))))"

text \<open>\<^verbatim>\<open>GET /api/conversations/:id/analysis\<close>\<close>

definition get_api_conversation_analysis ::
  "'s IStorage \<Rightarrow> string \<Rightarrow> 's \<Rightarrow> response \<times> 's" where
  "get_api_conversation_analysis store ident st =
     (case getAnalysis store ident st of
        (Inl m, st') \<Rightarrow> (\<lparr>status = 500, body = MessageBody (Text m)\<rparr>, st')
      | (Inr None, st') \<Rightarrow>
          (\<lparr>status = 404, body = MessageBody (Text ''Analysis not found'')\<rparr>, st')
      | (Inr (Some analysis), st') \<Rightarrow> (\<lparr>status = 200, body = AnalysisBody analysis\<rparr>, st'))"

text \<open>\<^verbatim>\<open>GET /api/analyses\<close>\<close>

definition get_api_analyses :: "'s IStorage \<Rightarrow> 's \<Rightarrow> response \<times> 's" where
  "get_api_analyses store st =
     (case getAnalyses store st of
        (Inl m, st1) \<Rightarrow> (\<lparr>status = 500, body = MessageBody (Text m)\<rparr>, st1)
      | (Inr as, st1) \<Rightarrow>
          (case getConversations store st1 of
             (Inl m, st2) \<Rightarrow> (\<lparr>status = 500, body = MessageBody (Text m)\<rparr>, st2)
           | (Inr cs, st2) \<Rightarrow>
               (\<lparr>status = 200,
                 body = AnalysesBody
                   (map (\<lambda>analysis.
                           (analysis, find (\<lambda>c. id_c c = conversationId analysis) cs)) as)\<rparr>,
                st2)))"

section \<open>A concrete environment for the examples\<close>

text \<open>
  A stand-in for what lies outside the repository, used where a property is run on a
  concrete input: a provider that answers every request with one JSON text, a
  \<^verbatim>\<open>JSON.parse\<close> that reads that text and rejects any other, and the decimal text of the
  few numbers the examples meet.
\<close>

definition demo_Number_toString :: "jsnum \<Rightarrow> string" where
  "demo_Number_toString n =
     (case n of
        Fin r \<Rightarrow> if r = 0 then ''0'' else if r = 7 then ''7'' else if r = 10 then ''10'' else ''#''
      | NaN \<Rightarrow> ''NaN''
      | PosInf \<Rightarrow> ''Infinity''
      | NegInf \<Rightarrow> ''-Infinity'')"

definition demo_reply :: string where
  "demo_reply =
     ''{\"recommendations\":[\"Listen\",\"Pause\"],\"emotionalIntensity\":7,\"rawAnalysis\":\"Tense.\"}''"

definition demo_parsed :: jsval where
  "demo_parsed =
     JObject [(''recommendations'', JArray [JString ''Listen'', JString ''Pause''] []),
              (''emotionalIntensity'', JNumber (Fin 7)),
              (''rawAnalysis'', JString ''Tense.'')]"

definition demo_runtime :: runtime where
  "demo_runtime =
     \<lparr> chat_completions_create = (\<lambda>request. Inr (Some demo_reply)),
       JSON_parse = (\<lambda>text. if text = demo_reply then Inr demo_parsed
                            else Inl ''Unexpected token''),
       Number_toString = demo_Number_toString,
       TypeError_message = (\<lambda>f. ''TypeError'') \<rparr>"

definition demo_conversation :: Conversation where
  "demo_conversation =
     \<lparr> title = None, content = ''A: hi B: hello'', analysisType = Some ''Conflict Resolution'',
       model = Some ''gpt-4o'', temperature = Some ''0.7'', maxTokens = Some 500,
       id_c = ''c1'', createdAt_c = 1000 \<rparr>"

definition demo_store :: MemStorage where
  "demo_store = \<lparr> conversations = [(''c1'', demo_conversation)], analyses = [] \<rparr>"

definition demo_entropy :: entropy where
  "demo_entropy = \<lparr> randomUUID = ''a1'', new_Date = 2000 \<rparr>"

definition later_conversation :: Conversation where
  "later_conversation =
     \<lparr> title = Some (Some ''Monday''), content = ''A: sorry B: fine'', analysisType = None,
       model = None, temperature = None, maxTokens = None,
       id_c = ''c2'', createdAt_c = 5000 \<rparr>"

definition demo_analysis :: Analysis where
  "demo_analysis =
     \<lparr> conversationId = ''c1'', emotionalTone = JString ''Tense'', powerDynamics = JUndefined,
       communicationPatterns = JUndefined, relationshipInsights = JUndefined,
       recommendations = JString ''[]'', emotionalIntensity = ''7'', resolutionPotential = ''0'',
       communicationQuality = ''0'', powerBalance = ''0'', rawAnalysis = JString ''Tense.'',
       id_a = ''a0'', createdAt_a = 1500 \<rparr>"

definition later_analysis :: Analysis where
  "later_analysis =
     \<lparr> conversationId = ''c2'', emotionalTone = JString ''Calm'', powerDynamics = JUndefined,
       communicationPatterns = JUndefined, relationshipInsights = JUndefined,
       recommendations = JString ''[]'', emotionalIntensity = ''0'', resolutionPotential = ''10'',
       communicationQuality = ''7'', powerBalance = ''0'', rawAnalysis = JString ''Calm.'',
       id_a = ''a2'', createdAt_a = 6000 \<rparr>"

text \<open>A store after two conversations and their analyses, the older ones inserted first.\<close>

definition busy_store :: MemStorage where
  "busy_store =
     \<lparr> conversations = [(''c1'', demo_conversation), (''c2'', later_conversation)],
       analyses = [(''a0'', demo_analysis), (''a2'', later_analysis)] \<rparr>"



section \<open>Properties of the Analysis Requestor\<close>

text \<open>
  C1. The specification says that every score of a returned result lies between 0 and
  10, a non-numeric raw value counting as 0. The code's \<^verbatim>\<open>|| 0\<close> replaces only falsy
  values. When the provider writes a score as text that is not a number, here
  \<^verbatim>\<open>"8/10"\<close>, the text is truthy, \<^verbatim>\<open>Math.min(10, "8/10")\<close> is \<^verbatim>\<open>NaN\<close>, and the result
  is returned with \<^verbatim>\<open>emotionalIntensity\<close> equal to \<^verbatim>\<open>NaN\<close>, which is not a number from 0
  to 10. (In the same result the raw 15 is clamped to 10 and the missing scores are 0.)
\<close>

theorem analyzeConversation_textual_score_is_NaN:
  "analyzeConversation
     (rt\<lparr>chat_completions_create :=
            \<lambda>request. Inr (Some ''{\"emotionalIntensity\":\"8/10\",\"resolutionPotential\":15}''),
         JSON_parse :=
            \<lambda>text. Inr (JObject [(''emotionalIntensity'', JString ''8/10''),
                                  (''resolutionPotential'', JNumber (Fin 15))])\<rparr>)
     request
   = Inr (JObject [(''emotionalIntensity'', JNumber NaN),
                   (''resolutionPotential'', JNumber (Fin 10)),
                   (''communicationQuality'', JNumber (Fin 0)),
                   (''powerBalance'', JNumber (Fin 0))])
   \<and> \<not> score_in_range (JNumber NaN)"
proof -
  have "StringToNumber ''8/10'' = NaN"
    by code_simp
  then show ?thesis
    by (simp add: analyzeConversation_def analyze_try_def sanitize_scores_def score_fields_def
        sanitize_score_def own_property_def logical_or_def ToNumber_def score_in_range_def)
qed

section \<open>Properties of the analyze handler\<close>

text \<open>
  C7. When the conversation id is not in the store, the analyze handler answers 404
  with the message ``Conversation not found'', returns the store as it was (so no
  Analysis is created), and sends no request to the Analysis Requestor.
\<close>

theorem analyze_absent_conversation:
  assumes "map_of (conversations st) ident = None"
  shows "post_api_conversation_analyze rt storage e ident req_body st =
           (\<lparr>status = 404, body = MessageBody (Text ''Conversation not found'')\<rparr>, st, [])"
  using assms
  by (simp add: post_api_conversation_analyze_def storage_def Mem_getConversation_def)

theorem analyze_absent_conversation_witness:
  "map_of (conversations demo_store) ''c2'' = None
   \<and> post_api_conversation_analyze demo_runtime storage demo_entropy ''c2'' JNull demo_store =
       (\<lparr>status = 404, body = MessageBody (Text ''Conversation not found'')\<rparr>, demo_store, [])"
proof -
  have h: "map_of (conversations demo_store) ''c2'' = None"
    by (simp add: demo_store_def)
  from h analyze_absent_conversation [OF h] show ?thesis
    by simp
qed

lemma analyze_failure_response:
  assumes "map_of (conversations st) ident = Some conversation"
      and "analyzeConversation rt (analysisRequest_of conversation) = Inl m"
  shows "post_api_conversation_analyze rt storage e ident req_body st =
           (\<lparr>status = 500, body = MessageBody (Text m)\<rparr>, st, [analysisRequest_of conversation])"
  using assms
  by (simp add: post_api_conversation_analyze_def storage_def Mem_getConversation_def)

text \<open>
  C2. For a conversation that is in the store, when the provider's reply is empty
  (\<^verbatim>\<open>null\<close> or the empty string) or is text that \<^verbatim>\<open>JSON.parse\<close> rejects, the analyze
  handler answers 500 with the message ``Failed to analyze conversation: '' followed by
  the cause (the fixed text for an empty reply, the parser's message otherwise), returns
  the store as it was (so no Analysis is persisted), and has sent exactly one request to
  the provider (nothing is retried).
\<close>

theorem analyze_unusable_reply:
  assumes "map_of (conversations st) ident = Some conversation"
      and "chat_completions_create rt (analysisRequest_of conversation) = Inr reply"
  shows "(reply = None \<or> reply = Some [] \<longrightarrow>
            post_api_conversation_analyze rt storage e ident req_body st =
              (\<lparr>status = 500,
                body = MessageBody (Text (''Failed to analyze conversation: ''
                         @ ''No response content received from OpenAI''))\<rparr>,
               st, [analysisRequest_of conversation]))
       \<and> (\<forall>text cause. reply = Some text \<and> text \<noteq> [] \<and> JSON_parse rt text = Inl cause \<longrightarrow>
            post_api_conversation_analyze rt storage e ident req_body st =
              (\<lparr>status = 500,
                body = MessageBody (Text (''Failed to analyze conversation: '' @ cause))\<rparr>,
               st, [analysisRequest_of conversation]))"
proof (intro conjI impI allI)
  assume "reply = None \<or> reply = Some []"
  then have "analyzeConversation rt (analysisRequest_of conversation) =
               Inl (''Failed to analyze conversation: ''
                    @ ''No response content received from OpenAI'')"
    using assms(2) by (auto simp: analyzeConversation_def analyze_try_def)
  then show "post_api_conversation_analyze rt storage e ident req_body st =
              (\<lparr>status = 500,
                body = MessageBody (Text (''Failed to analyze conversation: ''
                         @ ''No response content received from OpenAI''))\<rparr>,
               st, [analysisRequest_of conversation])"
    by (rule analyze_failure_response [OF assms(1)])
next
  fix reply_text cause
  assume "reply = Some reply_text \<and> reply_text \<noteq> [] \<and> JSON_parse rt reply_text = Inl cause"
  then have "analyzeConversation rt (analysisRequest_of conversation) =
               Inl (''Failed to analyze conversation: '' @ cause)"
    using assms(2) by (simp add: analyzeConversation_def analyze_try_def)
  then show "post_api_conversation_analyze rt storage e ident req_body st =
              (\<lparr>status = 500,
                body = MessageBody (Text (''Failed to analyze conversation: '' @ cause))\<rparr>,
               st, [analysisRequest_of conversation])"
    by (rule analyze_failure_response [OF assms(1)])
qed

theorem analyze_unusable_reply_witness:
  "post_api_conversation_analyze
      (demo_runtime\<lparr>chat_completions_create := \<lambda>request. Inr None\<rparr>)
      storage demo_entropy ''c1'' JNull demo_store =
     (\<lparr>status = 500,
       body = MessageBody (Text ''Failed to analyze conversation: No response content received from OpenAI'')\<rparr>,
      demo_store, [analysisRequest_of demo_conversation])
   \<and> post_api_conversation_analyze
      (demo_runtime\<lparr>chat_completions_create := \<lambda>request. Inr (Some ''I cannot help'')\<rparr>)
      storage demo_entropy ''c1'' JNull demo_store =
     (\<lparr>status = 500,
       body = MessageBody (Text ''Failed to analyze conversation: Unexpected token'')\<rparr>,
      demo_store, [analysisRequest_of demo_conversation])"
proof -
  have stored: "map_of (conversations demo_store) ''c1'' = Some demo_conversation"
    by (simp add: demo_store_def)
  have silent: "chat_completions_create (demo_runtime\<lparr>chat_completions_create := \<lambda>request. Inr None\<rparr>)
                  (analysisRequest_of demo_conversation) = Inr None"
    by simp
  have chatty: "chat_completions_create
                  (demo_runtime\<lparr>chat_completions_create := \<lambda>request. Inr (Some ''I cannot help'')\<rparr>)
                  (analysisRequest_of demo_conversation) = Inr (Some ''I cannot help'')"
    by simp
  have rejected: "JSON_parse (demo_runtime\<lparr>chat_completions_create := \<lambda>request. Inr (Some ''I cannot help'')\<rparr>)
                    ''I cannot help'' = Inl ''Unexpected token''"
    by (simp add: demo_runtime_def demo_reply_def)
  from analyze_unusable_reply [OF stored silent, of demo_entropy JNull]
       analyze_unusable_reply [OF stored chatty, of demo_entropy JNull] rejected
  show ?thesis
    by simp
qed

text \<open>
  C3. The analyze handler never reads the request body: two calls that differ only in
  the body give the same answer, the same store and the same requests to the Analysis
  Requestor. When the store returns a conversation, the one request sent is made of that
  conversation's own \<^verbatim>\<open>content\<close>, \<^verbatim>\<open>analysisType\<close>, \<^verbatim>\<open>model\<close>, \<^verbatim>\<open>temperature\<close> (through
  \<^verbatim>\<open>parseFloat\<close>) and \<^verbatim>\<open>maxTokens\<close>. This holds for every implementation of the store.
\<close>

theorem analyze_ignores_request_body:
  "post_api_conversation_analyze rt store e ident body1 st =
     post_api_conversation_analyze rt store e ident body2 st
   \<and> (\<forall>c st1. getConversation store ident st = (Inr (Some c), st1) \<longrightarrow>
        snd (snd (post_api_conversation_analyze rt store e ident body1 st)) =
          [\<lparr> rq_conversation = content c,
              rq_analysisType = analysisType c,
              rq_model = model c,
              rq_temperature =
                parseFloat (case temperature c of None \<Rightarrow> ''undefined'' | Some t \<Rightarrow> t),
              rq_maxTokens = maxTokens c \<rparr>])"
  by (auto simp: post_api_conversation_analyze_def analysisRequest_of_def Let_def
      split: sum.splits prod.splits option.splits)

text \<open>The stored temperature \<^verbatim>\<open>"0.7"\<close> reads as the double nearest to 0.7.\<close>

theorem analyze_ignores_request_body_witness:
  "getConversation storage ''c1'' demo_store = (Inr (Some demo_conversation), demo_store)
   \<and> snd (snd (post_api_conversation_analyze demo_runtime storage demo_entropy ''c1''
                 (JObject [(''content'', JString ''other text''), (''model'', JString ''gpt-3.5'')])
                 demo_store)) =
       [\<lparr> rq_conversation = ''A: hi B: hello'',
           rq_analysisType = Some ''Conflict Resolution'',
           rq_model = Some ''gpt-4o'',
           rq_temperature = Fin (3152519739159347 / 4503599627370496),
           rq_maxTokens = Some 500 \<rparr>]"
proof -
  have stored: "getConversation storage ''c1'' demo_store = (Inr (Some demo_conversation), demo_store)"
    by (simp add: storage_def Mem_getConversation_def demo_store_def)
  have temp: "parseFloat ''0.7'' = Fin (3152519739159347 / 4503599627370496)"
    by code_simp
  note body_unread = analyze_ignores_request_body [of demo_runtime storage demo_entropy "''c1''"
         "JObject [(''content'', JString ''other text''), (''model'', JString ''gpt-3.5'')]"
         demo_store JNull, THEN conjunct2, rule_format, OF stored]
  from body_unread stored temp show ?thesis
    by (simp add: demo_conversation_def)
qed

section \<open>Properties of the create handler\<close>

lemma map_of_update_same: "map_of (AList.update k v al) k = Some v"
  by (simp add: update_conv')


lemma create_valid_request:
  assumes "conversation_issues kvs = []"
  shows "post_api_conversations storage e (JObject kvs) st =
           (\<lparr>status = 200, body = ConversationBody (new_conversation e (conversation_data kvs))\<rparr>,
            st\<lparr>conversations :=
                 AList.update (randomUUID e) (new_conversation e (conversation_data kvs))
                   (conversations st)\<rparr>)"
  using assms
  by (simp add: post_api_conversations_def insertConversationSchema_parse_def storage_def
      Mem_createConversation_def Let_def)

lemma create_invalid_request:
  assumes "conversation_issues kvs \<noteq> []"
  shows "post_api_conversations store e (JObject kvs) st =
           (\<lparr>status = 400, body = MessageBody (ZodIssues (conversation_issues kvs))\<rparr>, st)"
  using assms
  by (simp add: post_api_conversations_def insertConversationSchema_parse_def)

lemma content_not_string_issue:
  assumes "\<forall>s. own_property kvs ''content'' \<noteq> JString s"
  shows "conversation_issues kvs \<noteq> []"
  using assms
  by (cases "own_property kvs ''content''") (simp_all add: conversation_issues_def zod_string_def)

lemma get_after_create:
  "get_api_conversation storage (randomUUID e)
     (st\<lparr>conversations := AList.update (randomUUID e) c (conversations st)\<rparr>) =
   (\<lparr>status = 200, body = ConversationBody c\<rparr>,
    st\<lparr>conversations := AList.update (randomUUID e) c (conversations st)\<rparr>)"
  by (simp add: get_api_conversation_def storage_def Mem_getConversation_def map_of_update_same)

text \<open>
  C4, as stated, fails: the schema asks only that \<^verbatim>\<open>content\<close> be a string, so a request
  whose \<^verbatim>\<open>content\<close> is the empty string is answered 200 and the conversation is stored.
\<close>

theorem create_conversation_empty_content_counterexample:
  "post_api_conversations storage \<lparr>randomUUID = ''c2'', new_Date = 3000\<rparr>
     (JObject [(''content'', JString '''')]) demo_store =
   (\<lparr>status = 200,
     body = ConversationBody
       \<lparr> title = None, content = '''', analysisType = None, model = None,
         temperature = None, maxTokens = None, id_c = ''c2'', createdAt_c = 3000 \<rparr>\<rparr>,
    \<lparr>conversations =
       [(''c1'', demo_conversation),
        (''c2'', \<lparr> title = None, content = '''', analysisType = None, model = None,
                   temperature = None, maxTokens = None, id_c = ''c2'', createdAt_c = 3000 \<rparr>)],
     analyses = []\<rparr>)"
  by (simp add: post_api_conversations_def insertConversationSchema_parse_def storage_def
      Mem_createConversation_def conversation_issues_def conversation_data_def own_property_def
      zod_string_def zod_string_optional_def zod_string_nullish_def zod_int32_optional_def
      string_field_def demo_store_def new_conversation_def Let_def)

text \<open>
  C4, amended. A creation request whose \<^verbatim>\<open>content\<close> is absent or is not a string is
  answered 400 with the issues of the validation, and the store is unchanged. A request
  whose \<^verbatim>\<open>content\<close> is any string, the empty string included, and whose optional fields
  pass their validators is answered 200 with the new conversation, which has that
  content and the assigned id and is returned by a get for that id.
\<close>

theorem create_conversation_content:
  "((\<forall>s. own_property kvs ''content'' \<noteq> JString s) \<longrightarrow>
      post_api_conversations storage e (JObject kvs) st =
        (\<lparr>status = 400, body = MessageBody (ZodIssues (conversation_issues kvs))\<rparr>, st)
      \<and> conversation_issues kvs \<noteq> [])
   \<and> (own_property kvs ''content'' = JString c
        \<and> zod_string_nullish ''title'' (own_property kvs ''title'') = []
        \<and> zod_string_optional ''analysisType'' (own_property kvs ''analysisType'') = []
        \<and> zod_string_optional ''model'' (own_property kvs ''model'') = []
        \<and> zod_string_optional ''temperature'' (own_property kvs ''temperature'') = []
        \<and> zod_int32_optional ''maxTokens'' (own_property kvs ''maxTokens'') = [] \<longrightarrow>
      (\<exists>conversation st'.
          post_api_conversations storage e (JObject kvs) st =
            (\<lparr>status = 200, body = ConversationBody conversation\<rparr>, st')
          \<and> content conversation = c
          \<and> id_c conversation = randomUUID e
          \<and> get_api_conversation storage (randomUUID e) st' =
              (\<lparr>status = 200, body = ConversationBody conversation\<rparr>, st')))"
proof (rule conjI; rule impI)
  assume "\<forall>s. own_property kvs ''content'' \<noteq> JString s"
  then have "conversation_issues kvs \<noteq> []"
    by (rule content_not_string_issue)
  then show "post_api_conversations storage e (JObject kvs) st =
        (\<lparr>status = 400, body = MessageBody (ZodIssues (conversation_issues kvs))\<rparr>, st)
      \<and> conversation_issues kvs \<noteq> []"
    by (simp add: create_invalid_request)
next
  assume ok: "own_property kvs ''content'' = JString c
        \<and> zod_string_nullish ''title'' (own_property kvs ''title'') = []
        \<and> zod_string_optional ''analysisType'' (own_property kvs ''analysisType'') = []
        \<and> zod_string_optional ''model'' (own_property kvs ''model'') = []
        \<and> zod_string_optional ''temperature'' (own_property kvs ''temperature'') = []
        \<and> zod_int32_optional ''maxTokens'' (own_property kvs ''maxTokens'') = []"
  then have valid: "conversation_issues kvs = []"
    by (simp add: conversation_issues_def zod_string_def)
  let ?conv = "new_conversation e (conversation_data kvs)"
  let ?st' = "st\<lparr>conversations := AList.update (randomUUID e) ?conv (conversations st)\<rparr>"
  have "post_api_conversations storage e (JObject kvs) st =
          (\<lparr>status = 200, body = ConversationBody ?conv\<rparr>, ?st')"
    using valid by (rule create_valid_request)
  moreover have "content ?conv = c"
    using ok by (simp add: new_conversation_def conversation_data_def)
  moreover have "id_c ?conv = randomUUID e"
    by (simp add: new_conversation_def)
  moreover have "get_api_conversation storage (randomUUID e) ?st' =
                   (\<lparr>status = 200, body = ConversationBody ?conv\<rparr>, ?st')"
    by (rule get_after_create)
  ultimately show "\<exists>conversation st'.
          post_api_conversations storage e (JObject kvs) st =
            (\<lparr>status = 200, body = ConversationBody conversation\<rparr>, st')
          \<and> content conversation = c
          \<and> id_c conversation = randomUUID e
          \<and> get_api_conversation storage (randomUUID e) st' =
              (\<lparr>status = 200, body = ConversationBody conversation\<rparr>, st')"
    by blast
qed

theorem create_conversation_content_witness:
  "post_api_conversations storage demo_entropy (JObject [(''title'', JString ''x'')]) demo_store =
     (\<lparr>status = 400, body = MessageBody (ZodIssues [Required ''content''])\<rparr>, demo_store)
   \<and> (\<exists>conversation st'.
          post_api_conversations storage demo_entropy (JObject [(''content'', JString [])]) demo_store =
            (\<lparr>status = 200, body = ConversationBody conversation\<rparr>, st')
          \<and> content conversation = []
          \<and> id_c conversation = ''a1''
          \<and> get_api_conversation storage ''a1'' st' =
              (\<lparr>status = 200, body = ConversationBody conversation\<rparr>, st'))"
proof -
  have missing: "\<forall>s. own_property [(''title'', JString ''x'')] ''content'' \<noteq> JString s"
    by (simp add: own_property_def)
  have issues: "conversation_issues [(''title'', JString ''x'')] = [Required ''content'']"
    by (simp add: conversation_issues_def own_property_def zod_string_def
        zod_string_optional_def zod_string_nullish_def zod_int32_optional_def)
  have given: "own_property [(''content'', JString [])] ''content'' = JString []
        \<and> zod_string_nullish ''title'' (own_property [(''content'', JString [])] ''title'') = []
        \<and> zod_string_optional ''analysisType''
              (own_property [(''content'', JString [])] ''analysisType'') = []
        \<and> zod_string_optional ''model'' (own_property [(''content'', JString [])] ''model'') = []
        \<and> zod_string_optional ''temperature''
              (own_property [(''content'', JString [])] ''temperature'') = []
        \<and> zod_int32_optional ''maxTokens''
              (own_property [(''content'', JString [])] ''maxTokens'') = []"
    by (simp add: own_property_def zod_string_optional_def zod_string_nullish_def
        zod_int32_optional_def)
  note rejected = create_conversation_content
      [of "[(''title'', JString ''x'')]" demo_entropy demo_store, THEN conjunct1, THEN mp, OF missing]
  note accepted = create_conversation_content
      [of "[(''content'', JString [])]" demo_entropy demo_store "[]", THEN conjunct2, THEN mp,
       OF given]
  from rejected issues accepted show ?thesis
    by (simp add: demo_entropy_def)
qed

text \<open>
  C5, as stated, fails: the schema asks only that \<^verbatim>\<open>maxTokens\<close>, when given, be an
  integer, so a request with \<^verbatim>\<open>maxTokens\<close> 7, which is not one of 250, 500, 1000 and
  1500, is answered 200 and stored with \<^verbatim>\<open>maxTokens\<close> 7.
\<close>

theorem create_conversation_any_maxTokens_counterexample:
  "post_api_conversations storage \<lparr>randomUUID = ''c2'', new_Date = 3000\<rparr>
     (JObject [(''content'', JString ''A: hi''), (''maxTokens'', JNumber (Fin 7))]) demo_store =
   (\<lparr>status = 200,
     body = ConversationBody
       \<lparr> title = None, content = ''A: hi'', analysisType = None, model = None,
         temperature = None, maxTokens = Some 7, id_c = ''c2'', createdAt_c = 3000 \<rparr>\<rparr>,
    \<lparr>conversations =
       [(''c1'', demo_conversation),
        (''c2'', \<lparr> title = None, content = ''A: hi'', analysisType = None, model = None,
                   temperature = None, maxTokens = Some 7, id_c = ''c2'', createdAt_c = 3000 \<rparr>)],
     analyses = []\<rparr>)"
  by (simp add: post_api_conversations_def insertConversationSchema_parse_def storage_def
      Mem_createConversation_def conversation_issues_def conversation_data_def own_property_def
      zod_string_def zod_string_optional_def zod_string_nullish_def zod_int32_optional_def
      string_field_def demo_store_def new_conversation_def Let_def)

lemma zod_int32_accepts:
  assumes "- 2147483648 \<le> n" and "n \<le> 2147483647"
  shows "zod_int32_optional path (JNumber (Fin (real_of_int n))) = []"
  using assms by (simp add: zod_int32_optional_def)

text \<open>
  C5, amended. The set 250, 500, 1000, 1500 is not enforced: a creation request that
  gives \<^verbatim>\<open>maxTokens\<close> as any integer of the 32-bit range, and whose other fields pass
  their validators, is answered 200 and the conversation is stored under its id with
  that very \<^verbatim>\<open>maxTokens\<close>.
\<close>

theorem create_conversation_maxTokens:
  assumes "own_property kvs ''maxTokens'' = JNumber (Fin (real_of_int n))"
      and "- 2147483648 \<le> n" and "n \<le> 2147483647"
      and "zod_string_nullish ''title'' (own_property kvs ''title'') = []"
      and "zod_string ''content'' (own_property kvs ''content'') = []"
      and "zod_string_optional ''analysisType'' (own_property kvs ''analysisType'') = []"
      and "zod_string_optional ''model'' (own_property kvs ''model'') = []"
      and "zod_string_optional ''temperature'' (own_property kvs ''temperature'') = []"
  shows "\<exists>conversation st'.
           post_api_conversations storage e (JObject kvs) st =
             (\<lparr>status = 200, body = ConversationBody conversation\<rparr>, st')
           \<and> maxTokens conversation = Some n
           \<and> map_of (conversations st') (randomUUID e) = Some conversation"
proof -
  have valid: "conversation_issues kvs = []"
    using assms by (simp add: conversation_issues_def zod_int32_accepts)
  let ?conv = "new_conversation e (conversation_data kvs)"
  let ?st' = "st\<lparr>conversations := AList.update (randomUUID e) ?conv (conversations st)\<rparr>"
  have "post_api_conversations storage e (JObject kvs) st =
          (\<lparr>status = 200, body = ConversationBody ?conv\<rparr>, ?st')"
    using valid by (rule create_valid_request)
  moreover have "maxTokens ?conv = Some n"
    using assms(1) by (simp add: new_conversation_def conversation_data_def)
  moreover have "map_of (conversations ?st') (randomUUID e) = Some ?conv"
    by (simp add: map_of_update_same)
  ultimately show ?thesis
    by blast
qed

theorem create_conversation_maxTokens_witness:
  "\<exists>conversation st'.
      post_api_conversations storage demo_entropy
        (JObject [(''content'', JString ''A: hi''), (''maxTokens'', JNumber (Fin 7))]) demo_store =
        (\<lparr>status = 200, body = ConversationBody conversation\<rparr>, st')
      \<and> maxTokens conversation = Some 7
      \<and> map_of (conversations st') ''a1'' = Some conversation"
proof -
  let ?kvs = "[(''content'', JString ''A: hi''), (''maxTokens'', JNumber (Fin 7))]"
  have a: "own_property ?kvs ''maxTokens'' = JNumber (Fin (real_of_int 7))"
    by (simp add: own_property_def)
  have b: "- 2147483648 \<le> (7::int)" and c: "(7::int) \<le> 2147483647"
    by simp_all
  have d: "zod_string_nullish ''title'' (own_property ?kvs ''title'') = []"
    by (simp add: own_property_def zod_string_nullish_def)
  have f: "zod_string ''content'' (own_property ?kvs ''content'') = []"
    by (simp add: own_property_def zod_string_def)
  have g: "zod_string_optional ''analysisType'' (own_property ?kvs ''analysisType'') = []"
    by (simp add: own_property_def zod_string_optional_def)
  have h: "zod_string_optional ''model'' (own_property ?kvs ''model'') = []"
    by (simp add: own_property_def zod_string_optional_def)
  have i: "zod_string_optional ''temperature'' (own_property ?kvs ''temperature'') = []"
    by (simp add: own_property_def zod_string_optional_def)
  from create_conversation_maxTokens [OF a b c d f g h i, of demo_entropy demo_store]
  show ?thesis
    by (simp add: demo_entropy_def)
qed

text \<open>
  C9. Whatever fails inside the create handler is answered 400 with the message of the
  error: a request the schema rejects, with the issues of the validation, and a request
  the schema accepts for which \<^verbatim>\<open>createConversation\<close> of the store (any implementation
  of the interface) rejects, with the message of that rejection. The only statuses of
  this endpoint are 200 and 400.
\<close>

theorem create_conversation_failures_are_400:
  "(\<forall>issues. insertConversationSchema_parse req_body = Inl issues \<longrightarrow>
       post_api_conversations store e req_body st =
         (\<lparr>status = 400, body = MessageBody (ZodIssues issues)\<rparr>, st))
   \<and> (\<forall>validatedData m st'.
         insertConversationSchema_parse req_body = Inr validatedData
         \<and> createConversation store e validatedData st = (Inl m, st') \<longrightarrow>
       post_api_conversations store e req_body st =
         (\<lparr>status = 400, body = MessageBody (Text m)\<rparr>, st'))
   \<and> (status (fst (post_api_conversations store e req_body st)) = 200
        \<or> status (fst (post_api_conversations store e req_body st)) = 400)"
  by (auto simp: post_api_conversations_def split: sum.splits prod.splits)

theorem create_conversation_failures_are_400_witness:
  "post_api_conversations
      (storage\<lparr>createConversation := \<lambda>e insertConversation this. (Inl ''connection lost'', this)\<rparr>)
      demo_entropy (JObject []) demo_store =
     (\<lparr>status = 400, body = MessageBody (ZodIssues [Required ''content''])\<rparr>, demo_store)
   \<and> post_api_conversations
      (storage\<lparr>createConversation := \<lambda>e insertConversation this. (Inl ''connection lost'', this)\<rparr>)
      demo_entropy (JObject [(''content'', JString ''A: hi'')]) demo_store =
     (\<lparr>status = 400, body = MessageBody (Text ''connection lost'')\<rparr>, demo_store)"
proof -
  let ?store = "storage\<lparr>createConversation :=
                   \<lambda>e insertConversation this. (Inl ''connection lost'', this)\<rparr>"
  let ?data = "conversation_data [(''content'', JString ''A: hi'')]"
  have invalid: "insertConversationSchema_parse (JObject []) = Inl [Required ''content'']"
    by (simp add: insertConversationSchema_parse_def conversation_issues_def own_property_def
        zod_string_def zod_string_optional_def zod_string_nullish_def zod_int32_optional_def)
  have valid: "insertConversationSchema_parse (JObject [(''content'', JString ''A: hi'')]) = Inr ?data
               \<and> createConversation ?store demo_entropy ?data demo_store =
                     (Inl ''connection lost'', demo_store)"
    by (simp add: insertConversationSchema_parse_def conversation_issues_def own_property_def
        zod_string_def zod_string_optional_def zod_string_nullish_def zod_int32_optional_def)
  note schema_fault = create_conversation_failures_are_400
      [of "JObject []" ?store demo_entropy demo_store, THEN conjunct1, rule_format, OF invalid]
  note store_fault = create_conversation_failures_are_400
      [of "JObject [(''content'', JString ''A: hi'')]" ?store demo_entropy demo_store,
       THEN conjunct2, THEN conjunct1, rule_format, OF valid]
  from schema_fault store_fault show ?thesis
    by simp
qed

section \<open>Properties of the record store\<close>

lemma mset_insert_sorted: "mset (insert_sorted cmp x ys) = add_mset x (mset ys)"
  by (induction ys) auto

lemma mset_Array_sort: "mset (Array_sort cmp xs) = mset xs"
  unfolding Array_sort_def by (induction xs) (auto simp: mset_insert_sorted)

lemma set_insert_sorted: "set (insert_sorted cmp x ys) = insert x (set ys)"
  by (induction ys) auto

lemma newest_first_insert:
  assumes "sorted_wrt (\<lambda>a b. key b \<le> key a) ys"
  shows "sorted_wrt (\<lambda>a b. key b \<le> key a) (insert_sorted (\<lambda>a b. key b - key a) x ys)"
  using assms
proof (induction ys)
  case Nil
  then show ?case by simp
next
  case (Cons y ys)
  show ?case
  proof (cases "key y - key x \<le> 0")
    case True
    with Cons.prems show ?thesis by auto
  next
    case False
    with Cons show ?thesis by (auto simp: set_insert_sorted)
  qed
qed

lemma newest_first_sort:
  "sorted_wrt (\<lambda>a b. (key b :: int) \<le> key a) (Array_sort (\<lambda>a b. key b - key a) xs)"
  unfolding Array_sort_def by (induction xs) (auto intro: newest_first_insert)

lemma sorted_wrt_later_before:
  assumes "sorted_wrt (\<lambda>a b. (key b :: int) \<le> key a) xs"
      and "i < length xs" and "j < length xs" and "key (xs ! j) < key (xs ! i)"
  shows "i < j"
proof (rule ccontr)
  assume "\<not> i < j"
  then have "j < i \<or> j = i" by arith
  then show False
  proof
    assume "j < i"
    with assms(1,2) have "key (xs ! i) \<le> key (xs ! j)"
      by (simp add: sorted_wrt_iff_nth_less)
    with assms(4) show False by simp
  next
    assume "j = i"
    with assms(4) show False by simp
  qed
qed

text \<open>
  C6. For every state of the store, \<^verbatim>\<open>getConversations()\<close> returns exactly the stored
  conversations, ordered by \<^verbatim>\<open>createdAt\<close> descending: whenever the conversation at
  position \<open>i\<close> was created strictly later than the one at position \<open>j\<close>, it comes
  first (\<open>i < j\<close>). \<^verbatim>\<open>getAnalyses()\<close> does the same for the analyses. Neither changes
  the store.
\<close>

theorem listings_newest_first:
  "(\<exists>cs. Mem_getConversations this = (Inr cs, this)
        \<and> mset cs = mset (map snd (conversations this))
        \<and> sorted_wrt (\<lambda>a b. createdAt_c b \<le> createdAt_c a) cs
        \<and> (\<forall>i j. i < length cs \<and> j < length cs \<and> createdAt_c (cs ! j) < createdAt_c (cs ! i)
               \<longrightarrow> i < j))
   \<and> (\<exists>as. Mem_getAnalyses this = (Inr as, this)
        \<and> mset as = mset (map snd (analyses this))
        \<and> sorted_wrt (\<lambda>a b. createdAt_a b \<le> createdAt_a a) as
        \<and> (\<forall>i j. i < length as \<and> j < length as \<and> createdAt_a (as ! j) < createdAt_a (as ! i)
               \<longrightarrow> i < j))"
proof (rule conjI)
  let ?cs = "Array_sort (\<lambda>a b. createdAt_c b - createdAt_c a) (map snd (conversations this))"
  have "Mem_getConversations this = (Inr ?cs, this)"
    by (simp add: Mem_getConversations_def)
  moreover have "mset ?cs = mset (map snd (conversations this))"
    by (rule mset_Array_sort)
  moreover have s: "sorted_wrt (\<lambda>a b. createdAt_c b \<le> createdAt_c a) ?cs"
    by (rule newest_first_sort)
  moreover have "\<forall>i j. i < length ?cs \<and> j < length ?cs
                   \<and> createdAt_c (?cs ! j) < createdAt_c (?cs ! i) \<longrightarrow> i < j"
    using sorted_wrt_later_before [OF s] by blast
  ultimately show "\<exists>cs. Mem_getConversations this = (Inr cs, this)
        \<and> mset cs = mset (map snd (conversations this))
        \<and> sorted_wrt (\<lambda>a b. createdAt_c b \<le> createdAt_c a) cs
        \<and> (\<forall>i j. i < length cs \<and> j < length cs \<and> createdAt_c (cs ! j) < createdAt_c (cs ! i)
               \<longrightarrow> i < j)"
    by blast
next
  let ?as = "Array_sort (\<lambda>a b. createdAt_a b - createdAt_a a) (map snd (analyses this))"
  have "Mem_getAnalyses this = (Inr ?as, this)"
    by (simp add: Mem_getAnalyses_def)
  moreover have "mset ?as = mset (map snd (analyses this))"
    by (rule mset_Array_sort)
  moreover have s: "sorted_wrt (\<lambda>a b. createdAt_a b \<le> createdAt_a a) ?as"
    by (rule newest_first_sort)
  moreover have "\<forall>i j. i < length ?as \<and> j < length ?as
                   \<and> createdAt_a (?as ! j) < createdAt_a (?as ! i) \<longrightarrow> i < j"
    using sorted_wrt_later_before [OF s] by blast
  ultimately show "\<exists>as. Mem_getAnalyses this = (Inr as, this)
        \<and> mset as = mset (map snd (analyses this))
        \<and> sorted_wrt (\<lambda>a b. createdAt_a b \<le> createdAt_a a) as
        \<and> (\<forall>i j. i < length as \<and> j < length as \<and> createdAt_a (as ! j) < createdAt_a (as ! i)
               \<longrightarrow> i < j)"
    by blast
qed

theorem listings_newest_first_witness:
  "Mem_getConversations busy_store = (Inr [later_conversation, demo_conversation], busy_store)
   \<and> createdAt_c ([later_conversation, demo_conversation] ! 1)
       < createdAt_c ([later_conversation, demo_conversation] ! 0)
   \<and> sorted_wrt (\<lambda>a b. createdAt_c b \<le> createdAt_c a) [later_conversation, demo_conversation]
   \<and> Mem_getAnalyses busy_store = (Inr [later_analysis, demo_analysis], busy_store)
   \<and> createdAt_a ([later_analysis, demo_analysis] ! 1)
       < createdAt_a ([later_analysis, demo_analysis] ! 0)
   \<and> sorted_wrt (\<lambda>a b. createdAt_a b \<le> createdAt_a a) [later_analysis, demo_analysis]"
proof -
  have cs: "Mem_getConversations busy_store =
              (Inr [later_conversation, demo_conversation], busy_store)"
    by (simp add: Mem_getConversations_def Array_sort_def busy_store_def
        demo_conversation_def later_conversation_def)
  have as: "Mem_getAnalyses busy_store = (Inr [later_analysis, demo_analysis], busy_store)"
    by (simp add: Mem_getAnalyses_def Array_sort_def busy_store_def
        demo_analysis_def later_analysis_def)
  have c_times: "createdAt_c ([later_conversation, demo_conversation] ! 1)
                   < createdAt_c ([later_conversation, demo_conversation] ! 0)"
    by (simp add: demo_conversation_def later_conversation_def)
  have a_times: "createdAt_a ([later_analysis, demo_analysis] ! 1)
                   < createdAt_a ([later_analysis, demo_analysis] ! 0)"
    by (simp add: demo_analysis_def later_analysis_def)
  from listings_newest_first [of busy_store] cs
  have c_sorted: "sorted_wrt (\<lambda>a b. createdAt_c b \<le> createdAt_c a)
                    [later_conversation, demo_conversation]"
    by auto
  from listings_newest_first [of busy_store] as
  have a_sorted: "sorted_wrt (\<lambda>a b. createdAt_a b \<le> createdAt_a a)
                    [later_analysis, demo_analysis]"
    by auto
  from cs as c_times a_times c_sorted a_sorted show ?thesis
    by blast
qed







section \<open>Recommendations, from creation to reading\<close>

lemma find_update_only_match:
  assumes "P v" and "find P (map snd al) = None"
  shows "find P (map snd (AList.update k v al)) = Some v"
  using assms by (induction al) (auto split: if_splits)

lemma own_property_update:
  "own_property (AList.update k x ps) k' = (if k' = k then x else own_property ps k')"
  by (simp add: own_property_def update_conv')

lemma sanitize_score_result:
  assumes "sanitize_score rt key v = Inr r"
  shows "is_container r \<and> (\<exists>n. Get_prop r key = Inr (JNumber n))
         \<and> (\<forall>k. k \<noteq> key \<longrightarrow> Get_prop r k = Get_prop v k)"
  using assms
  by (cases v)
     (auto simp: sanitize_score_def is_container_def own_property_update
           split: sum.splits)

lemma sanitize_scores_result:
  assumes "sanitize_scores rt v = Inr r"
  shows "is_container r \<and> (\<forall>key \<in> set score_fields. \<exists>n. Get_prop r key = Inr (JNumber n))"
proof -
  from assms obtain r1 r2 r3 where
    s1: "sanitize_score rt ''emotionalIntensity'' v = Inr r1" and
    s2: "sanitize_score rt ''resolutionPotential'' r1 = Inr r2" and
    s3: "sanitize_score rt ''communicationQuality'' r2 = Inr r3" and
    s4: "sanitize_score rt ''powerBalance'' r3 = Inr r"
    by (auto simp: sanitize_scores_def score_fields_def split: sum.splits)
  note f1 = sanitize_score_result [OF s1] and f2 = sanitize_score_result [OF s2]
    and f3 = sanitize_score_result [OF s3] and f4 = sanitize_score_result [OF s4]
  have "\<exists>n. Get_prop r ''powerBalance'' = Inr (JNumber n)"
    using f4 by blast
  moreover have "\<exists>n. Get_prop r ''communicationQuality'' = Inr (JNumber n)"
    using f3 f4 by simp
  moreover have "\<exists>n. Get_prop r ''resolutionPotential'' = Inr (JNumber n)"
    using f2 f3 f4 by simp
  moreover have "\<exists>n. Get_prop r ''emotionalIntensity'' = Inr (JNumber n)"
    using f1 f2 f3 f4 by simp
  ultimately show ?thesis
    using f4 by (simp add: score_fields_def)
qed

lemma score_text_number:
  assumes "Get_prop r key = Inr (JNumber n)"
  shows "score_text rt r key = Inr (Number_toString rt n)"
  using assms by (simp add: score_text_def)

lemma analyzeConversation_result:
  assumes "analyzeConversation rt request = Inr r"
  shows "is_container r \<and> (\<forall>key \<in> set score_fields. \<exists>n. Get_prop r key = Inr (JNumber n))"
proof -
  from assms obtain parsed where "sanitize_scores rt parsed = Inr r"
    by (auto simp: analyzeConversation_def analyze_try_def split: sum.splits option.splits if_splits)
  then show ?thesis
    by (rule sanitize_scores_result)
qed

lemma insertAnalysis_of_result:
  assumes "analyzeConversation rt request = Inr r"
  shows "\<exists>insertAnalysis.
           insertAnalysis_of rt conversation r = Inr insertAnalysis
           \<and> conversationId insertAnalysis = id_c conversation
           \<and> recommendations insertAnalysis =
               (case JSON_stringify (Number_toString rt)
                       (property_or_undefined r ''recommendations'') of
                  None \<Rightarrow> JUndefined
                | Some t \<Rightarrow> JString t)"
proof -
  note facts = analyzeConversation_result [OF assms]
  from facts obtain n1 n2 n3 n4 where
    n1: "Get_prop r ''emotionalIntensity'' = Inr (JNumber n1)" and
    n2: "Get_prop r ''resolutionPotential'' = Inr (JNumber n2)" and
    n3: "Get_prop r ''communicationQuality'' = Inr (JNumber n3)" and
    n4: "Get_prop r ''powerBalance'' = Inr (JNumber n4)"
    by (auto simp: score_fields_def)
  from facts obtain tone where tone: "Get_prop r ''emotionalTone'' = Inr tone"
    by (cases r) (auto simp: is_container_def)
  show ?thesis
    by (simp add: insertAnalysis_of_def tone score_text_number [OF n1] score_text_number [OF n2]
        score_text_number [OF n3] score_text_number [OF n4])
qed

text \<open>
  C8, amended. At creation the handler stores \<^verbatim>\<open>JSON.stringify\<close> of the result's
  \<^verbatim>\<open>recommendations\<close> as text (or \<^verbatim>\<open>undefined\<close> when there are none). Reading the
  analysis of the conversation returns that stored text as it is: nothing on the read
  path turns it back into a sequence of strings. (The read is stated for a conversation
  that had no analysis before, since \<^verbatim>\<open>getAnalysis\<close> returns the first one stored.)
\<close>

theorem recommendations_read_as_stored_text:
  assumes "map_of (conversations st) ident = Some conversation"
      and "id_c conversation = ident"
      and "find (\<lambda>analysis. conversationId analysis = ident) (map snd (analyses st)) = None"
      and "analyzeConversation rt (analysisRequest_of conversation) = Inr analysisResult"
  shows "\<exists>analysis st'.
           post_api_conversation_analyze rt storage e ident req_body st =
             (\<lparr>status = 200, body = AnalyzeBody analysis analysisResult\<rparr>, st',
              [analysisRequest_of conversation])
           \<and> get_api_conversation_analysis storage ident st' =
               (\<lparr>status = 200, body = AnalysisBody analysis\<rparr>, st')
           \<and> recommendations analysis =
               (case JSON_stringify (Number_toString rt)
                       (property_or_undefined analysisResult ''recommendations'') of
                  None \<Rightarrow> JUndefined
                | Some t \<Rightarrow> JString t)"
proof -
  from insertAnalysis_of_result [OF assms(4)] obtain insertAnalysis where
    ins: "insertAnalysis_of rt conversation analysisResult = Inr insertAnalysis" and
    cid: "conversationId insertAnalysis = id_c conversation" and
    recs: "recommendations insertAnalysis =
             (case JSON_stringify (Number_toString rt)
                     (property_or_undefined analysisResult ''recommendations'') of
                None \<Rightarrow> JUndefined
              | Some t \<Rightarrow> JString t)"
    by blast
  let ?analysis = "new_analysis e insertAnalysis"
  let ?st' = "st\<lparr>analyses := AList.update (randomUUID e) ?analysis (analyses st)\<rparr>"
  have run: "post_api_conversation_analyze rt storage e ident req_body st =
               (\<lparr>status = 200, body = AnalyzeBody ?analysis analysisResult\<rparr>, ?st',
                [analysisRequest_of conversation])"
    using assms(1,4) ins
    by (simp add: post_api_conversation_analyze_def storage_def Mem_getConversation_def
        Mem_createAnalysis_def Let_def)
  have mine: "conversationId ?analysis = ident"
    using cid assms(2) by (simp add: new_analysis_def)
  have "find (\<lambda>analysis. conversationId analysis = ident) (map snd (analyses ?st')) = Some ?analysis"
    using mine assms(3) by (simp add: find_update_only_match)
  then have read: "get_api_conversation_analysis storage ident ?st' =
                     (\<lparr>status = 200, body = AnalysisBody ?analysis\<rparr>, ?st')"
    by (simp add: get_api_conversation_analysis_def storage_def Mem_getAnalysis_def)
  have "recommendations ?analysis =
          (case JSON_stringify (Number_toString rt)
                  (property_or_undefined analysisResult ''recommendations'') of
             None \<Rightarrow> JUndefined
           | Some t \<Rightarrow> JString t)"
    using recs by (simp add: new_analysis_def)
  with run read show ?thesis
    by blast
qed

text \<open>
  C8, as stated, fails: the result's \<^verbatim>\<open>recommendations\<close> is the sequence of the two
  strings \<^verbatim>\<open>Listen\<close> and \<^verbatim>\<open>Pause\<close>; after the analysis, reading the analysis of the
  conversation returns the text \<^verbatim>\<open>["Listen","Pause"]\<close>, a string and not that sequence.
\<close>

theorem recommendations_read_as_stored_text_counterexample:
  "property_or_undefined demo_parsed ''recommendations'' =
     JArray [JString ''Listen'', JString ''Pause''] []
   \<and> body (fst (get_api_conversation_analysis storage ''c1''
        (fst (snd (post_api_conversation_analyze demo_runtime storage demo_entropy ''c1'' JNull
                     demo_store))))) =
     AnalysisBody
       \<lparr> conversationId = ''c1'', emotionalTone = JUndefined, powerDynamics = JUndefined,
         communicationPatterns = JUndefined, relationshipInsights = JUndefined,
         recommendations = JString ''[\"Listen\",\"Pause\"]'',
         emotionalIntensity = ''7'', resolutionPotential = ''0'',
         communicationQuality = ''0'', powerBalance = ''0'', rawAnalysis = JString ''Tense.'',
         id_a = ''a1'', createdAt_a = 2000 \<rparr>
   \<and> JString ''[\"Listen\",\"Pause\"]'' \<noteq> JArray [JString ''Listen'', JString ''Pause''] []"
  by (simp add: post_api_conversation_analyze_def get_api_conversation_analysis_def storage_def
      Mem_getConversation_def Mem_createAnalysis_def Mem_getAnalysis_def new_analysis_def
      analysisRequest_of_def analyzeConversation_def analyze_try_def sanitize_scores_def
      score_fields_def sanitize_score_def own_property_def logical_or_def ToNumber_def
      insertAnalysis_of_def score_text_def property_or_undefined_def
      QuoteJSONString_def QuoteJSONChar_def
      demo_runtime_def demo_reply_def demo_parsed_def demo_store_def demo_conversation_def
      demo_entropy_def demo_Number_toString_def Let_def)

theorem recommendations_read_as_stored_text_witness:
  "map_of (conversations demo_store) ''c1'' = Some demo_conversation
   \<and> id_c demo_conversation = ''c1''
   \<and> find (\<lambda>analysis. conversationId analysis = ''c1'') (map snd (analyses demo_store)) = None
   \<and> analyzeConversation demo_runtime (analysisRequest_of demo_conversation) =
       Inr (JObject [(''recommendations'', JArray [JString ''Listen'', JString ''Pause''] []),
                     (''emotionalIntensity'', JNumber (Fin 7)),
                     (''rawAnalysis'', JString ''Tense.''),
                     (''resolutionPotential'', JNumber (Fin 0)),
                     (''communicationQuality'', JNumber (Fin 0)),
                     (''powerBalance'', JNumber (Fin 0))])
   \<and> (\<exists>analysis st'.
         post_api_conversation_analyze demo_runtime storage demo_entropy ''c1'' JNull demo_store =
           (\<lparr>status = 200,
             body = AnalyzeBody analysis
               (JObject [(''recommendations'', JArray [JString ''Listen'', JString ''Pause''] []),
                         (''emotionalIntensity'', JNumber (Fin 7)),
                         (''rawAnalysis'', JString ''Tense.''),
                         (''resolutionPotential'', JNumber (Fin 0)),
                         (''communicationQuality'', JNumber (Fin 0)),
                         (''powerBalance'', JNumber (Fin 0))])\<rparr>,
            st', [analysisRequest_of demo_conversation])
         \<and> get_api_conversation_analysis storage ''c1'' st' =
             (\<lparr>status = 200, body = AnalysisBody analysis\<rparr>, st')
         \<and> recommendations analysis = JString ''[\"Listen\",\"Pause\"]'')"
proof -
  let ?result = "JObject [(''recommendations'', JArray [JString ''Listen'', JString ''Pause''] []),
                     (''emotionalIntensity'', JNumber (Fin 7)),
                     (''rawAnalysis'', JString ''Tense.''),
                     (''resolutionPotential'', JNumber (Fin 0)),
                     (''communicationQuality'', JNumber (Fin 0)),
                     (''powerBalance'', JNumber (Fin 0))]"
  have stored: "map_of (conversations demo_store) ''c1'' = Some demo_conversation"
    by (simp add: demo_store_def)
  have key: "id_c demo_conversation = ''c1''"
    by (simp add: demo_conversation_def)
  have first: "find (\<lambda>analysis. conversationId analysis = ''c1'')
                 (map snd (analyses demo_store)) = None"
    by (simp add: demo_store_def)
  have analysed: "analyzeConversation demo_runtime (analysisRequest_of demo_conversation) =
                    Inr ?result"
    by (simp add: analyzeConversation_def analyze_try_def sanitize_scores_def
        score_fields_def sanitize_score_def own_property_def logical_or_def ToNumber_def
        demo_runtime_def demo_reply_def demo_parsed_def)
  have written: "(case JSON_stringify (Number_toString demo_runtime)
                         (property_or_undefined ?result ''recommendations'') of
                    None \<Rightarrow> JUndefined
                  | Some t \<Rightarrow> JString t) = JString ''[\"Listen\",\"Pause\"]''"
    by (simp add: property_or_undefined_def own_property_def QuoteJSONString_def
        QuoteJSONChar_def)
  from recommendations_read_as_stored_text [OF stored key first analysed, of demo_entropy JNull]
       written stored key first analysed
  show ?thesis
    by simp
qed

section \<open>What the sanitising block does guarantee\<close>

text \<open>
  What does hold of the sanitising block: a raw score that is a number other than
  \<^verbatim>\<open>NaN\<close> ends between 0 and 10, the raw values -5, 0, 7.3 and 15 end as 0, 0, 7.3 and
  10, a missing score ends as 0, and every property other than the four scores is the
  one that was parsed.
\<close>

lemma clamp_in_range:
  assumes "n \<noteq> NaN"
  shows "score_in_range (JNumber (Math_max (Fin 0) (Math_min (Fin 10) n)))"
  using assms by (cases n) (simp_all add: score_in_range_def)

lemma sanitize_score_of_number:
  assumes "own_property kvs key = JNumber n" and "n \<noteq> NaN"
  shows "sanitize_score rt key (JObject kvs) =
           Inr (JObject (AList.update key
                  (JNumber (Math_max (Fin 0) (Math_min (Fin 10) n))) kvs))"
  using assms
  by (cases "n = Fin 0"; cases n) (simp_all add: sanitize_score_def logical_or_def ToNumber_def)

lemma sanitize_score_of_missing:
  assumes "own_property kvs key = JUndefined"
  shows "sanitize_score rt key (JObject kvs) =
           Inr (JObject (AList.update key (JNumber (Fin 0)) kvs))"
  using assms by (simp add: sanitize_score_def logical_or_def ToNumber_def)

lemma sanitize_score_examples:
  "sanitize_score rt ''powerBalance'' (JObject [(''powerBalance'', JNumber (Fin (- 5)))]) =
     Inr (JObject [(''powerBalance'', JNumber (Fin 0))])"
  "sanitize_score rt ''powerBalance'' (JObject [(''powerBalance'', JNumber (Fin 0))]) =
     Inr (JObject [(''powerBalance'', JNumber (Fin 0))])"
  "sanitize_score rt ''powerBalance'' (JObject [(''powerBalance'', JNumber (Fin (73 / 10)))]) =
     Inr (JObject [(''powerBalance'', JNumber (Fin (73 / 10)))])"
  "sanitize_score rt ''powerBalance'' (JObject [(''powerBalance'', JNumber (Fin 15))]) =
     Inr (JObject [(''powerBalance'', JNumber (Fin 10))])"
  by (simp_all add: sanitize_score_def own_property_def logical_or_def ToNumber_def)

lemma sanitize_scores_other_fields:
  assumes "sanitize_scores rt v = Inr r" and "k \<notin> set score_fields"
  shows "Get_prop r k = Get_prop v k"
proof -
  from assms(1) obtain r1 r2 r3 where
    s1: "sanitize_score rt ''emotionalIntensity'' v = Inr r1" and
    s2: "sanitize_score rt ''resolutionPotential'' r1 = Inr r2" and
    s3: "sanitize_score rt ''communicationQuality'' r2 = Inr r3" and
    s4: "sanitize_score rt ''powerBalance'' r3 = Inr r"
    by (auto simp: sanitize_scores_def score_fields_def split: sum.splits)
  from assms(2) have "k \<noteq> ''emotionalIntensity''" "k \<noteq> ''resolutionPotential''"
    "k \<noteq> ''communicationQuality''" "k \<noteq> ''powerBalance''"
    by (auto simp: score_fields_def)
  with sanitize_score_result [OF s1] sanitize_score_result [OF s2]
       sanitize_score_result [OF s3] sanitize_score_result [OF s4]
  show ?thesis
    by simp
qed

section \<open>Text to number at the edges of the doubles\<close>

text \<open>
  Text to number at the edges of the doubles: overflow gives \<^verbatim>\<open>Infinity\<close>, underflow
  gives zero, a literal with more digits than a double holds is rounded, and white space
  outside ASCII (here U+00A0 in front and U+2028 behind) is trimmed.
\<close>

lemma parseFloat_overflow: "parseFloat ''1e400'' = PosInf"
  by code_simp

lemma StringToNumber_underflow: "StringToNumber ''1e-400'' = Fin 0"
  by code_simp

lemma StringToNumber_rounds: "StringToNumber ''9.9999999999999999999'' = Fin 10"
  by code_simp

lemma StringToNumber_trims:
  "StringToNumber [CHR 0xC2, CHR 0xA0, CHR ''5'', CHR 0xE2, CHR 0x80, CHR 0xA8] = Fin 5"
  by code_simp

end
